theory Spec2Isabelle
  imports Main "HOL-Library.Word"
begin

unbundle bit_operations_syntax

section \<open>Handle pool\<close>

text \<open>
  The device layer keeps every category of GPU object in a \<open>Pool<T, MAX_COUNT>\<close>: an array of
  \<open>MAX_COUNT\<close> slots with an intrusive free list. The first \<open>int\<close> of a free slot holds the
  index of the next free slot, \<open>-1\<close> ends the list. The model keeps exactly that \<open>int\<close> of
  every slot (\<open>pool_values\<close>, the array \<open>values\<close> of the source) and the head \<open>first_free\<close>.
  The links that the pool writes lie between \<open>-1\<close> and \<open>MAX_COUNT\<close>, so no arithmetic on
  them overflows. The source indexes the array unchecked; an access outside the array is
  undefined behaviour there and the error \<open>OutOfBounds\<close> here. A failed \<open>ASSERT\<close> is the
  error \<open>AssertionFailed\<close>.
\<close>

datatype error = AssertionFailed | OutOfBounds

type_synonym uint = "32 word"

record Pool =
  pool_values :: "int list"
  first_free :: int

text \<open>
  \<open>create\<close> links slot \<open>i\<close> to \<open>i + 1\<close>, overwrites the link of the last slot with \<open>-1\<close> and
  makes slot 0 the head. With \<open>MAX_COUNT = 0\<close> the write to slot \<open>MAX_COUNT - 1\<close> is outside
  the array.
\<close>

definition create :: "nat \<Rightarrow> error + Pool" where
  "create MAX_COUNT =
     (if MAX_COUNT = 0 then Inl OutOfBounds
      else Inr \<lparr>pool_values = (map (\<lambda>i. int i + 1) [0..<MAX_COUNT])[MAX_COUNT - 1 := - 1],
                first_free = 0\<rparr>)"

definition alloc :: "Pool \<Rightarrow> error + (int \<times> Pool)" where
  "alloc p =
     (if first_free p = - 1 then Inr (- 1, p)
      else if 0 \<le> first_free p \<and> nat (first_free p) < length (pool_values p)
      then Inr (first_free p, p\<lparr>first_free := pool_values p ! nat (first_free p)\<rparr>)
      else Inl OutOfBounds)"

text \<open>
  \<open>dealloc\<close> takes its index as \<open>uint\<close> and stores it in the \<open>int\<close> head: \<open>sint\<close> is that
  conversion.
\<close>

definition dealloc :: "uint \<Rightarrow> Pool \<Rightarrow> error + Pool" where
  "dealloc idx p =
     (if unat idx < length (pool_values p)
      then Inr \<lparr>pool_values = (pool_values p)[unat idx := first_free p], first_free = sint idx\<rparr>
      else Inl OutOfBounds)"

definition isFull :: "Pool \<Rightarrow> bool" where
  "isFull p = (first_free p = - 1)"

text \<open>
  The capacity is an \<open>int\<close> template argument, so every pool has fewer than \<open>2 ^ 31\<close> slots.
\<close>

definition capacity_fits :: "Pool \<Rightarrow> bool" where
  "capacity_fits p = (length (pool_values p) < 2 ^ 31)"

subsection \<open>Sequences of pool operations\<close>

text \<open>
  \<open>allocs k\<close> is \<open>k\<close> consecutive calls of \<open>alloc\<close>, with the returned values in call order.
\<close>

fun allocs :: "nat \<Rightarrow> Pool \<Rightarrow> error + (int list \<times> Pool)" where
  "allocs 0 p = Inr ([], p)"
| "allocs (Suc k) p =
     (case alloc p of
        Inl e \<Rightarrow> Inl e
      | Inr (i, p') \<Rightarrow>
          (case allocs k p' of
             Inl e \<Rightarrow> Inl e
           | Inr (is, p'') \<Rightarrow> Inr (i # is, p'')))"

text \<open>
  \<open>operator[]\<close> hands out a reference to a slot, through which the client fills the object
  it was given (\<open>allocTextureHandle\<close> sets \<open>handle = 0\<close> there). The first \<open>int\<close> of the object
  is the storage of the link: \<open>store idx v\<close> is a write of \<open>v\<close> to it.
\<close>

definition store :: "uint \<Rightarrow> int \<Rightarrow> Pool \<Rightarrow> error + Pool" where
  "store idx v p =
     (if unat idx < length (pool_values p)
      then Inr (p\<lparr>pool_values := (pool_values p)[unat idx := v]\<rparr>)
      else Inl OutOfBounds)"

text \<open>
  A client of the pool is a sequence of \<open>alloc\<close> and \<open>dealloc\<close> calls and of writes to
  slots. \<open>exec\<close> runs one of them and keeps, beside the pool, the handles the client holds:
  a handle is added when \<open>alloc\<close> returns an index (not the sentinel) and one copy of it is
  dropped by \<open>dealloc\<close>.
\<close>

datatype pool_op = Alloc | Dealloc uint | Store uint int

fun exec :: "Pool \<times> int list \<Rightarrow> pool_op \<Rightarrow> error + (Pool \<times> int list)" where
  "exec (p, live) Alloc =
     (case alloc p of
        Inl e \<Rightarrow> Inl e
      | Inr (i, p') \<Rightarrow> Inr (p', if i = - 1 then live else i # live))"
| "exec (p, live) (Dealloc idx) =
     (case dealloc idx p of
        Inl e \<Rightarrow> Inl e
      | Inr p' \<Rightarrow> Inr (p', remove1 (sint idx) live))"
| "exec (p, live) (Store idx v) =
     (case store idx v p of
        Inl e \<Rightarrow> Inl e
      | Inr p' \<Rightarrow> Inr (p', live))"

fun exec_all :: "Pool \<times> int list \<Rightarrow> pool_op list \<Rightarrow> error + (Pool \<times> int list)" where
  "exec_all s [] = Inr s"
| "exec_all s (x # xs) = (case exec s x of Inl e \<Rightarrow> Inl e | Inr s' \<Rightarrow> exec_all s' xs)"

text \<open>
  The pool checks nothing: that \<open>dealloc\<close> is only called with a handle the client holds,
  and that only slots the client holds are written, is the client's duty. \<open>disciplined\<close>
  says that a sequence of calls keeps to it.
\<close>

fun op_allowed :: "int list \<Rightarrow> pool_op \<Rightarrow> bool" where
  "op_allowed live Alloc = True"
| "op_allowed live (Dealloc idx) = (sint idx \<in> set live)"
| "op_allowed live (Store idx v) = (sint idx \<in> set live)"

fun disciplined :: "Pool \<times> int list \<Rightarrow> pool_op list \<Rightarrow> bool" where
  "disciplined s [] = True"
| "disciplined s (x # xs) =
     (op_allowed (snd s) x \<and> (case exec s x of Inl e \<Rightarrow> False | Inr s' \<Rightarrow> disciplined s' xs))"


section \<open>Device state\<close>

text \<open>
  \<open>g_ffr\<close> is the one device state of the process. It records the thread that called \<open>init\<close>,
  a pool for each category of object, and the table from the CRC32 of a uniform's name to its
  slot. The free-list link of a pool slot lies in the storage of the object itself; the model
  keeps the links in the pool and the objects in a table beside it, indexed like the pool.
  The blocks that back the uniforms come from the allocator: \<open>heap\<close> maps the address of a
  block to its bytes and \<open>next_block\<close> is the address the next allocation returns.
  The enumeration \<open>UniformType\<close> is declared in \<open>ffr.h\<close>, which is not among the sources; its
  members are the ones the source names (\<open>INT'\<close> is \<open>UniformType::INT\<close>). The fields that
  several structures call \<open>handle\<close> carry the initial of their structure here.
\<close>

datatype UniformType = INT' | FLOAT | VEC2 | VEC3 | VEC4 | MAT4 | MAT4X3 | MAT3X4

record Texture =
  t_handle :: uint
  t_cubemap :: bool

record Uniform =
  u_type :: UniformType
  u_count :: uint
  u_data :: nat

record Program =
  p_handle :: uint
  p_uniforms :: "(int \<times> uint) list"

record ffr =
  thread :: nat
  textures :: Pool
  texture_objs :: "nat \<Rightarrow> Texture"
  uniforms :: Pool
  uniform_objs :: "nat \<Rightarrow> Uniform"
  programs :: Pool
  program_objs :: "nat \<Rightarrow> Program"
  uniforms_hash_map :: "uint \<rightharpoonup> uint"
  heap :: "nat \<rightharpoonup> 8 word list"
  next_block :: nat

text \<open>
  Modelled from the spec: the handle types and their invalid values are declared in the
  header \<open>ffr.h\<close>, which is not among the sources. A handle is an unsigned integer with one
  distinguished invalid value for each category; the model takes the value with all bits set,
  the one \<open>setFramebuffer\<close> compares a framebuffer handle with.
\<close>

definition INVALID_PROGRAM :: uint where
  "INVALID_PROGRAM = 0xFFFFFFFF"

definition INVALID_UNIFORM :: uint where
  "INVALID_UNIFORM = 0xFFFFFFFF"

definition isValid :: "uint \<Rightarrow> bool" where
  "isValid h = (h \<noteq> 0xFFFFFFFF)"

definition checkThread :: "ffr \<Rightarrow> nat \<Rightarrow> error + unit" where
  "checkThread g caller = (if thread g = caller then Inr () else Inl AssertionFailed)"

subsection \<open>Native calls\<close>

text \<open>
  The functions below return, beside their result, the calls they make in order: each call
  of the graphics library with its scalar arguments, each line written to the error log and
  each read from the input blob with the number of bytes asked for. The pixel data and the
  shader text handed to the library are not part of the claims and are left out, apart from
  the sources of a shader and the bytes of a uniform.
\<close>

definition GL_ZERO :: uint where "GL_ZERO = 0"
definition GL_FALSE :: uint where "GL_FALSE = 0"
definition GL_TRUE :: uint where "GL_TRUE = 1"
definition GL_TEXTURE_2D :: uint where "GL_TEXTURE_2D = 0x0DE1"
definition GL_TEXTURE_CUBE_MAP :: uint where "GL_TEXTURE_CUBE_MAP = 0x8513"
definition GL_TEXTURE_CUBE_MAP_POSITIVE_X :: uint where "GL_TEXTURE_CUBE_MAP_POSITIVE_X = 0x8515"
definition GL_COMPRESSED_RGBA_S3TC_DXT1_EXT :: uint where "GL_COMPRESSED_RGBA_S3TC_DXT1_EXT = 0x83F1"
definition GL_COMPRESSED_RGBA_S3TC_DXT3_EXT :: uint where "GL_COMPRESSED_RGBA_S3TC_DXT3_EXT = 0x83F2"
definition GL_COMPRESSED_RGBA_S3TC_DXT5_EXT :: uint where "GL_COMPRESSED_RGBA_S3TC_DXT5_EXT = 0x83F3"
definition GL_COMPRESSED_SRGB_ALPHA_S3TC_DXT1_EXT :: uint where "GL_COMPRESSED_SRGB_ALPHA_S3TC_DXT1_EXT = 0x8C4D"
definition GL_COMPRESSED_SRGB_ALPHA_S3TC_DXT3_EXT :: uint where "GL_COMPRESSED_SRGB_ALPHA_S3TC_DXT3_EXT = 0x8C4E"
definition GL_COMPRESSED_SRGB_ALPHA_S3TC_DXT5_EXT :: uint where "GL_COMPRESSED_SRGB_ALPHA_S3TC_DXT5_EXT = 0x8C4F"
definition GL_COMPRESSED_RED_RGTC1 :: uint where "GL_COMPRESSED_RED_RGTC1 = 0x8DBB"
definition GL_COMPRESSED_RG_RGTC2 :: uint where "GL_COMPRESSED_RG_RGTC2 = 0x8DBD"
definition GL_RGBA8 :: uint where "GL_RGBA8 = 0x8058"
definition GL_SRGB8_ALPHA8 :: uint where "GL_SRGB8_ALPHA8 = 0x8C43"
definition GL_BGRA :: uint where "GL_BGRA = 0x80E1"
definition GL_UNSIGNED_BYTE :: uint where "GL_UNSIGNED_BYTE = 0x1401"
definition GL_RGB8 :: uint where "GL_RGB8 = 0x8051"
definition GL_SRGB8 :: uint where "GL_SRGB8 = 0x8C41"
definition GL_BGR :: uint where "GL_BGR = 0x80E0"
definition GL_RGB5_A1 :: uint where "GL_RGB5_A1 = 0x8057"
definition GL_UNSIGNED_SHORT_1_5_5_5_REV :: uint where "GL_UNSIGNED_SHORT_1_5_5_5_REV = 0x8366"
definition GL_RGB5 :: uint where "GL_RGB5 = 0x8050"
definition GL_RGB :: uint where "GL_RGB = 0x1907"
definition GL_UNSIGNED_SHORT_5_6_5 :: uint where "GL_UNSIGNED_SHORT_5_6_5 = 0x8363"
definition GL_TEXTURE_MIN_FILTER :: uint where "GL_TEXTURE_MIN_FILTER = 0x2801"
definition GL_TEXTURE_MAG_FILTER :: uint where "GL_TEXTURE_MAG_FILTER = 0x2800"
definition GL_LINEAR :: uint where "GL_LINEAR = 0x2601"
definition GL_LINEAR_MIPMAP_LINEAR :: uint where "GL_LINEAR_MIPMAP_LINEAR = 0x2703"
definition GL_TEXTURE_MAX_LEVEL :: uint where "GL_TEXTURE_MAX_LEVEL = 0x813D"
definition GL_UNPACK_SWAP_BYTES :: uint where "GL_UNPACK_SWAP_BYTES = 0x0CF0"
definition GL_FRAGMENT_SHADER :: uint where "GL_FRAGMENT_SHADER = 0x8B30"
definition GL_VERTEX_SHADER :: uint where "GL_VERTEX_SHADER = 0x8B31"
definition GL_COMPILE_STATUS :: uint where "GL_COMPILE_STATUS = 0x8B81"
definition GL_LINK_STATUS :: uint where "GL_LINK_STATUS = 0x8B82"
definition GL_INFO_LOG_LENGTH :: uint where "GL_INFO_LOG_LENGTH = 0x8B84"
definition GL_ACTIVE_UNIFORMS :: uint where "GL_ACTIVE_UNIFORMS = 0x8B86"
definition GL_INT :: uint where "GL_INT = 0x1404"
definition GL_FLOAT :: uint where "GL_FLOAT = 0x1406"
definition GL_FLOAT_VEC2 :: uint where "GL_FLOAT_VEC2 = 0x8B50"
definition GL_FLOAT_VEC3 :: uint where "GL_FLOAT_VEC3 = 0x8B51"
definition GL_FLOAT_VEC4 :: uint where "GL_FLOAT_VEC4 = 0x8B52"
definition GL_FLOAT_MAT4 :: uint where "GL_FLOAT_MAT4 = 0x8B5C"
definition GL_FLOAT_MAT3x4 :: uint where "GL_FLOAT_MAT3x4 = 0x8B68"
definition GL_FLOAT_MAT4x3 :: uint where "GL_FLOAT_MAT4x3 = 0x8B6A"
definition GL_SAMPLER_2D :: uint where "GL_SAMPLER_2D = 0x8B5E"
definition GL_SAMPLER_CUBE :: uint where "GL_SAMPLER_CUBE = 0x8B60"

datatype gl_call =
    GenTextures
  | BindTexture uint uint
  | DeleteTextures uint
  | CompressedTexImage2D uint uint uint uint uint uint
  | TexImage2D uint uint uint uint uint uint uint
  | TexParameteri uint uint uint
  | PixelStorei uint uint
  | Viewport uint uint uint uint
  | CreateProgram
  | CreateShader uint
  | ShaderSource uint "string list"
  | CompileShader uint
  | GetShaderiv uint uint
  | GetShaderInfoLog uint
  | AttachShader uint uint
  | DeleteShader uint
  | LinkProgram uint
  | GetProgramiv uint uint
  | GetProgramInfoLog uint
  | DeleteProgram uint
  | GetActiveUniform uint nat
  | GetUniformLocation uint string
  | UseProgram uint
  | UniformMatrix4fv int uint "8 word list"
  | UniformMatrix4x3fv int uint "8 word list"
  | UniformMatrix3x4fv int uint "8 word list"
  | Uniform4fv int uint "8 word list"
  | Uniform3fv int uint "8 word list"
  | Uniform2fv int uint "8 word list"
  | Uniform1fv int uint "8 word list"
  | Uniform1i int "8 word list"

datatype event = GL gl_call | LogError string string | Read uint


section \<open>Texture container decoder\<close>

definition DDS_MAGIC :: uint where "DDS_MAGIC = 0x20534444"
definition DDSD_CAPS :: uint where "DDSD_CAPS = 0x00000001"
definition DDSD_PITCH :: uint where "DDSD_PITCH = 0x00000008"
definition DDSD_PIXELFORMAT :: uint where "DDSD_PIXELFORMAT = 0x00001000"
definition DDSD_MIPMAPCOUNT :: uint where "DDSD_MIPMAPCOUNT = 0x00020000"
definition DDSD_LINEARSIZE :: uint where "DDSD_LINEARSIZE = 0x00080000"
definition DDPF_ALPHAPIXELS :: uint where "DDPF_ALPHAPIXELS = 0x00000001"
definition DDPF_FOURCC :: uint where "DDPF_FOURCC = 0x00000004"
definition DDPF_INDEXED :: uint where "DDPF_INDEXED = 0x00000020"
definition DDPF_RGB :: uint where "DDPF_RGB = 0x00000040"
definition DDSCAPS2_CUBEMAP :: uint where "DDSCAPS2_CUBEMAP = 0x00000200"

text \<open>
  The four-character codes are multi-character literals: \<open>'1TXD'\<close> has \<open>'1'\<close> in its highest
  byte and \<open>'D'\<close> in its lowest, so that the bytes \<open>D X T 1\<close> of the file, read as a
  little-endian word, give it.
\<close>

definition D3DFMT_ATI1 :: uint where "D3DFMT_ATI1 = 0x31495441"
definition D3DFMT_ATI2 :: uint where "D3DFMT_ATI2 = 0x32495441"
definition D3DFMT_DXT1 :: uint where "D3DFMT_DXT1 = 0x31545844"
definition D3DFMT_DXT3 :: uint where "D3DFMT_DXT3 = 0x33545844"
definition D3DFMT_DXT5 :: uint where "D3DFMT_DXT5 = 0x35545844"

record PixelFormat =
  pf_dwSize :: uint
  pf_dwFlags :: uint
  pf_dwFourCC :: uint
  pf_dwRGBBitCount :: uint
  pf_dwRBitMask :: uint
  pf_dwGBitMask :: uint
  pf_dwBBitMask :: uint
  pf_dwAlphaBitMask :: uint

record Caps2 =
  caps_dwCaps1 :: uint
  caps_dwCaps2 :: uint
  caps_dwDDSX :: uint
  caps_dwReserved :: uint

record Header =
  hdr_dwMagic :: uint
  hdr_dwSize :: uint
  hdr_dwFlags :: uint
  hdr_dwHeight :: uint
  hdr_dwWidth :: uint
  hdr_dwPitchOrLinearSize :: uint
  hdr_dwDepth :: uint
  hdr_dwMipMapCount :: uint
  hdr_dwReserved1 :: "uint list"
  hdr_pixelFormat :: PixelFormat
  hdr_caps2 :: Caps2
  hdr_dwReserved2 :: uint

record LoadInfo =
  li_compressed :: bool
  li_swap :: bool
  li_palette :: bool
  li_blockBytes :: uint
  li_internalFormat :: uint
  li_internalSRGBFormat :: uint
  li_externalFormat :: uint
  li_type :: uint

record TextureInfo =
  ti_width :: uint
  ti_height :: uint
  ti_depth :: uint
  ti_layers :: uint
  ti_mips :: uint
  ti_is_cubemap :: bool

definition sizeDXTC :: "uint \<Rightarrow> uint \<Rightarrow> uint \<Rightarrow> uint" where
  "sizeDXTC w h format =
     (let is_dxt1 = (format = GL_COMPRESSED_RGBA_S3TC_DXT1_EXT \<or>
                     format = GL_COMPRESSED_SRGB_ALPHA_S3TC_DXT1_EXT);
          is_ati = (format = GL_COMPRESSED_RED_RGTC1)
      in ((w + 3) div 4) * ((h + 3) div 4) * (if is_dxt1 \<or> is_ati then 8 else 16))"

definition isDXT1 :: "PixelFormat \<Rightarrow> bool" where
  "isDXT1 pf = (pf_dwFlags pf AND DDPF_FOURCC \<noteq> 0 \<and> pf_dwFourCC pf = D3DFMT_DXT1)"

definition isATI1 :: "PixelFormat \<Rightarrow> bool" where
  "isATI1 pf = (pf_dwFlags pf AND DDPF_FOURCC \<noteq> 0 \<and> pf_dwFourCC pf = D3DFMT_ATI1)"

definition isATI2 :: "PixelFormat \<Rightarrow> bool" where
  "isATI2 pf = (pf_dwFlags pf AND DDPF_FOURCC \<noteq> 0 \<and> pf_dwFourCC pf = D3DFMT_ATI2)"

definition isDXT3 :: "PixelFormat \<Rightarrow> bool" where
  "isDXT3 pf = (pf_dwFlags pf AND DDPF_FOURCC \<noteq> 0 \<and> pf_dwFourCC pf = D3DFMT_DXT3)"

definition isDXT5 :: "PixelFormat \<Rightarrow> bool" where
  "isDXT5 pf = (pf_dwFlags pf AND DDPF_FOURCC \<noteq> 0 \<and> pf_dwFourCC pf = D3DFMT_DXT5)"

definition isBGRA8 :: "PixelFormat \<Rightarrow> bool" where
  "isBGRA8 pf =
     (pf_dwFlags pf AND DDPF_RGB \<noteq> 0
      \<and> pf_dwFlags pf AND DDPF_ALPHAPIXELS \<noteq> 0
      \<and> pf_dwRGBBitCount pf = 32
      \<and> pf_dwRBitMask pf = 0xff0000
      \<and> pf_dwGBitMask pf = 0xff00
      \<and> pf_dwBBitMask pf = 0xff
      \<and> pf_dwAlphaBitMask pf = 0xff000000)"

definition isBGR8 :: "PixelFormat \<Rightarrow> bool" where
  "isBGR8 pf =
     (pf_dwFlags pf AND DDPF_ALPHAPIXELS \<noteq> 0
      \<and> \<not> (pf_dwFlags pf AND DDPF_ALPHAPIXELS \<noteq> 0)
      \<and> pf_dwRGBBitCount pf = 24
      \<and> pf_dwRBitMask pf = 0xff0000
      \<and> pf_dwGBitMask pf = 0xff00
      \<and> pf_dwBBitMask pf = 0xff)"

definition isBGR5A1 :: "PixelFormat \<Rightarrow> bool" where
  "isBGR5A1 pf =
     (pf_dwFlags pf AND DDPF_RGB \<noteq> 0
      \<and> pf_dwFlags pf AND DDPF_ALPHAPIXELS \<noteq> 0
      \<and> pf_dwRGBBitCount pf = 16
      \<and> pf_dwRBitMask pf = 0x00007c00
      \<and> pf_dwGBitMask pf = 0x000003e0
      \<and> pf_dwBBitMask pf = 0x0000001f
      \<and> pf_dwAlphaBitMask pf = 0x00008000)"

definition isBGR565 :: "PixelFormat \<Rightarrow> bool" where
  "isBGR565 pf =
     (pf_dwFlags pf AND DDPF_RGB \<noteq> 0
      \<and> \<not> (pf_dwFlags pf AND DDPF_ALPHAPIXELS \<noteq> 0)
      \<and> pf_dwRGBBitCount pf = 16
      \<and> pf_dwRBitMask pf = 0x0000f800
      \<and> pf_dwGBitMask pf = 0x000007e0
      \<and> pf_dwBBitMask pf = 0x0000001f)"

definition isINDEX8 :: "PixelFormat \<Rightarrow> bool" where
  "isINDEX8 pf = (pf_dwFlags pf AND DDPF_INDEXED \<noteq> 0 \<and> pf_dwRGBBitCount pf = 8)"

text \<open>
  The initialisers of the block-compressed formats name six members; the other two are
  zero-initialised.
\<close>

definition loadInfoDXT1 :: LoadInfo where
  "loadInfoDXT1 = \<lparr>li_compressed = True, li_swap = False, li_palette = False, li_blockBytes = 8,
     li_internalFormat = GL_COMPRESSED_RGBA_S3TC_DXT1_EXT,
     li_internalSRGBFormat = GL_COMPRESSED_SRGB_ALPHA_S3TC_DXT1_EXT,
     li_externalFormat = 0, li_type = 0\<rparr>"

definition loadInfoDXT3 :: LoadInfo where
  "loadInfoDXT3 = \<lparr>li_compressed = True, li_swap = False, li_palette = False, li_blockBytes = 16,
     li_internalFormat = GL_COMPRESSED_RGBA_S3TC_DXT3_EXT,
     li_internalSRGBFormat = GL_COMPRESSED_SRGB_ALPHA_S3TC_DXT3_EXT,
     li_externalFormat = 0, li_type = 0\<rparr>"

definition loadInfoDXT5 :: LoadInfo where
  "loadInfoDXT5 = \<lparr>li_compressed = True, li_swap = False, li_palette = False, li_blockBytes = 16,
     li_internalFormat = GL_COMPRESSED_RGBA_S3TC_DXT5_EXT,
     li_internalSRGBFormat = GL_COMPRESSED_SRGB_ALPHA_S3TC_DXT5_EXT,
     li_externalFormat = 0, li_type = 0\<rparr>"

definition loadInfoATI1 :: LoadInfo where
  "loadInfoATI1 = \<lparr>li_compressed = True, li_swap = False, li_palette = False, li_blockBytes = 8,
     li_internalFormat = GL_COMPRESSED_RED_RGTC1, li_internalSRGBFormat = GL_ZERO,
     li_externalFormat = 0, li_type = 0\<rparr>"

definition loadInfoATI2 :: LoadInfo where
  "loadInfoATI2 = \<lparr>li_compressed = True, li_swap = False, li_palette = False, li_blockBytes = 16,
     li_internalFormat = GL_COMPRESSED_RG_RGTC2, li_internalSRGBFormat = GL_ZERO,
     li_externalFormat = 0, li_type = 0\<rparr>"

definition loadInfoBGRA8 :: LoadInfo where
  "loadInfoBGRA8 = \<lparr>li_compressed = False, li_swap = False, li_palette = False, li_blockBytes = 4,
     li_internalFormat = GL_RGBA8, li_internalSRGBFormat = GL_SRGB8_ALPHA8,
     li_externalFormat = GL_BGRA, li_type = GL_UNSIGNED_BYTE\<rparr>"

definition loadInfoBGR8 :: LoadInfo where
  "loadInfoBGR8 = \<lparr>li_compressed = False, li_swap = False, li_palette = False, li_blockBytes = 3,
     li_internalFormat = GL_RGB8, li_internalSRGBFormat = GL_SRGB8,
     li_externalFormat = GL_BGR, li_type = GL_UNSIGNED_BYTE\<rparr>"

definition loadInfoBGR5A1 :: LoadInfo where
  "loadInfoBGR5A1 = \<lparr>li_compressed = False, li_swap = True, li_palette = False, li_blockBytes = 2,
     li_internalFormat = GL_RGB5_A1, li_internalSRGBFormat = GL_ZERO,
     li_externalFormat = GL_BGRA, li_type = GL_UNSIGNED_SHORT_1_5_5_5_REV\<rparr>"

definition loadInfoBGR565 :: LoadInfo where
  "loadInfoBGR565 = \<lparr>li_compressed = False, li_swap = True, li_palette = False, li_blockBytes = 2,
     li_internalFormat = GL_RGB5, li_internalSRGBFormat = GL_ZERO,
     li_externalFormat = GL_RGB, li_type = GL_UNSIGNED_SHORT_5_6_5\<rparr>"

definition loadInfoIndex8 :: LoadInfo where
  "loadInfoIndex8 = \<lparr>li_compressed = False, li_swap = False, li_palette = True, li_blockBytes = 1,
     li_internalFormat = GL_RGB8, li_internalSRGBFormat = GL_SRGB8,
     li_externalFormat = GL_BGRA, li_type = GL_UNSIGNED_BYTE\<rparr>"

text \<open>
  The chain of tests by which \<open>loadTexture\<close> picks the \<open>LoadInfo\<close> of a file; \<open>None\<close> is its
  last branch, which returns \<open>false\<close>.
\<close>

definition select_load_info :: "PixelFormat \<Rightarrow> LoadInfo option" where
  "select_load_info pf =
     (if isDXT1 pf then Some loadInfoDXT1
      else if isDXT3 pf then Some loadInfoDXT3
      else if isDXT5 pf then Some loadInfoDXT5
      else if isATI1 pf then Some loadInfoATI1
      else if isATI2 pf then Some loadInfoATI2
      else if isBGRA8 pf then Some loadInfoBGRA8
      else if isBGR8 pf then Some loadInfoBGR8
      else if isBGR5A1 pf then Some loadInfoBGR5A1
      else if isBGR565 pf then Some loadInfoBGR565
      else if isINDEX8 pf then Some loadInfoIndex8
      else None)"

text \<open>
  \<open>Math::maximum(1, width >> 1)\<close> is \<open>max 1 (drop_bit 1 width)\<close>: the shifted value is below
  \<open>2 ^ 31\<close>, so the comparison gives the same result on \<open>int\<close> and on \<open>uint\<close>.

  The loop over the mip levels of a block-compressed face. The first argument counts the
  levels still to do; \<open>ix\<close>, \<open>width\<close>, \<open>height\<close> and \<open>size'\<close> are the variables \<open>ix\<close>, \<open>width\<close>,
  \<open>height\<close> and \<open>size\<close> of the source.
\<close>

fun compressed_mips :: "uint \<Rightarrow> uint \<Rightarrow> uint \<Rightarrow> nat \<Rightarrow> uint \<Rightarrow> uint \<Rightarrow> uint \<Rightarrow> uint \<Rightarrow> event list" where
  "compressed_mips tex_img_target texture_target internal_format 0 ix width height size' = []"
| "compressed_mips tex_img_target texture_target internal_format (Suc n) ix width height size' =
     [Read size',
      GL (CompressedTexImage2D tex_img_target ix internal_format width height size'),
      GL (TexParameteri texture_target GL_TEXTURE_MIN_FILTER GL_LINEAR_MIPMAP_LINEAR),
      GL (TexParameteri texture_target GL_TEXTURE_MAG_FILTER GL_LINEAR)] @
     compressed_mips tex_img_target texture_target internal_format n (ix + 1)
       (max 1 (drop_bit 1 width)) (max 1 (drop_bit 1 height))
       (sizeDXTC (max 1 (drop_bit 1 width)) (max 1 (drop_bit 1 height)) internal_format)"

text \<open>
  The loop over the mip levels of an uncompressed face. The loop of a paletted face makes the
  same calls: it differs in expanding each byte through the colour table before the upload.
\<close>

fun plain_mips :: "uint \<Rightarrow> uint \<Rightarrow> LoadInfo \<Rightarrow> nat \<Rightarrow> uint \<Rightarrow> uint \<Rightarrow> uint \<Rightarrow> uint \<Rightarrow> event list" where
  "plain_mips tex_img_target internal_format li 0 ix width height size' = []"
| "plain_mips tex_img_target internal_format li (Suc n) ix width height size' =
     [Read size',
      GL (TexImage2D tex_img_target ix internal_format width height (li_externalFormat li) (li_type li))] @
     plain_mips tex_img_target internal_format li n (ix + 1)
       (max 1 (drop_bit 1 width)) (max 1 (drop_bit 1 height))
       (max 1 (drop_bit 1 width) * max 1 (drop_bit 1 height) * li_blockBytes li)"

text \<open>
  The body of the loop over the faces. It returns \<open>False\<close> where the source deletes the
  texture and returns from \<open>loadTexture\<close>.
\<close>

definition load_side :: "Header \<Rightarrow> LoadInfo \<Rightarrow> bool \<Rightarrow> uint \<Rightarrow> uint \<Rightarrow> uint \<Rightarrow> nat \<Rightarrow> bool \<times> event list" where
  "load_side hdr li is_cubemap texture internal_format mipMapCount side =
     (let width = hdr_dwWidth hdr;
          height = hdr_dwHeight hdr;
          tex_img_target = (if is_cubemap then GL_TEXTURE_CUBE_MAP_POSITIVE_X + of_nat side else GL_TEXTURE_2D);
          texture_target = (if is_cubemap then GL_TEXTURE_CUBE_MAP else GL_TEXTURE_2D);
          bind = [GL (BindTexture texture_target texture)];
          max_level = [GL (TexParameteri texture_target GL_TEXTURE_MAX_LEVEL (mipMapCount - 1))]
      in if li_compressed li then
           (let size' = sizeDXTC width height internal_format
            in if size' \<noteq> hdr_dwPitchOrLinearSize hdr \<or> hdr_dwFlags hdr AND DDSD_LINEARSIZE = 0
               then (False, bind @ [GL (DeleteTextures texture)])
               else (True, bind @
                      compressed_mips tex_img_target texture_target internal_format
                        (unat mipMapCount) 0 width height size' @ max_level))
         else if li_palette li then
           (if hdr_dwFlags hdr AND DDSD_PITCH = 0 \<or> pf_dwRGBBitCount (hdr_pixelFormat hdr) \<noteq> 8
            then (False, bind @ [GL (DeleteTextures texture)])
            else (let size' = hdr_dwPitchOrLinearSize hdr * height
                  in if size' \<noteq> width * height * li_blockBytes li
                     then (False, bind @ [GL (DeleteTextures texture)])
                     else (True, bind @ [Read (4 * 256)] @
                            plain_mips tex_img_target internal_format li
                              (unat mipMapCount) 0 width height size' @ max_level)))
         else
           (True, bind @
              (if li_swap li then [GL (PixelStorei GL_UNPACK_SWAP_BYTES GL_TRUE)] else []) @
              plain_mips tex_img_target internal_format li
                (unat mipMapCount) 0 width height (width * height * li_blockBytes li) @
              [GL (PixelStorei GL_UNPACK_SWAP_BYTES GL_FALSE)] @ max_level))"

fun sides_loop :: "(nat \<Rightarrow> bool \<times> event list) \<Rightarrow> nat list \<Rightarrow> bool \<times> event list" where
  "sides_loop body [] = (True, [])"
| "sides_loop body (side # rest) =
     (case body side of
        (False, evs) \<Rightarrow> (False, evs)
      | (True, evs) \<Rightarrow> (case sides_loop body rest of (ok, evs') \<Rightarrow> (ok, evs @ evs')))"

text \<open>
  \<open>loadTexture\<close> reads the header from the blob into \<open>hdr\<close>; the model is given the header that
  was read. \<open>SRGB\<close> is the bit \<open>TextureFlags::SRGB\<close>, declared in \<open>ffr.h\<close>; \<open>texture\<close> is the
  name \<open>glGenTextures\<close> hands out; \<open>want_info\<close> says that \<open>info\<close> is not null.
\<close>

definition loadTexture ::
  "uint \<Rightarrow> ffr \<Rightarrow> nat \<Rightarrow> uint \<Rightarrow> Header \<Rightarrow> uint \<Rightarrow> bool \<Rightarrow> uint \<Rightarrow>
     error + (bool \<times> event list \<times> TextureInfo option \<times> ffr)" where
  "loadTexture SRGB g caller handle hdr flags want_info texture =
     (case checkThread g caller of
        Inl e \<Rightarrow> Inl e
      | Inr _ \<Rightarrow>
          if hdr_dwMagic hdr \<noteq> DDS_MAGIC \<or> hdr_dwSize hdr \<noteq> 124 \<or>
             hdr_dwFlags hdr AND DDSD_PIXELFORMAT = 0 \<or> hdr_dwFlags hdr AND DDSD_CAPS = 0
          then Inr (False, [Read 128, LogError ''renderer'' ''Wrong dds format or corrupted dds.''],
                    None, g)
          else
            (case select_load_info (hdr_pixelFormat hdr) of
               None \<Rightarrow> Inr (False, [Read 128], None, g)
             | Some li \<Rightarrow>
                 (let is_cubemap = (caps_dwCaps2 (hdr_caps2 hdr) AND DDSCAPS2_CUBEMAP \<noteq> 0)
                  in if texture = 0 then Inr (False, [Read 128, GL GenTextures], None, g)
                     else
                       (let is_srgb = (flags AND SRGB \<noteq> 0);
                            internal_format = (if is_srgb then li_internalSRGBFormat li
                                               else li_internalFormat li);
                            mipMapCount = (if hdr_dwFlags hdr AND DDSD_MIPMAPCOUNT \<noteq> 0
                                           then hdr_dwMipMapCount hdr else 1)
                        in case sides_loop
                                  (load_side hdr li is_cubemap texture internal_format mipMapCount)
                                  [0..<(if is_cubemap then 6 else 1)] of
                             (False, evs) \<Rightarrow> Inr (False, Read 128 # GL GenTextures # evs, None, g)
                           | (True, evs) \<Rightarrow>
                               if unat handle < length (pool_values (textures g))
                               then Inr (True, Read 128 # GL GenTextures # evs,
                                         (if want_info
                                          then Some \<lparr>ti_width = hdr_dwWidth hdr,
                                                      ti_height = hdr_dwHeight hdr,
                                                      ti_depth = 1, ti_layers = 1,
                                                      ti_mips = mipMapCount,
                                                      ti_is_cubemap = is_cubemap\<rparr>
                                          else None),
                                         g\<lparr>texture_objs := (texture_objs g)
                                              (unat handle := \<lparr>t_handle = texture,
                                                                t_cubemap = is_cubemap\<rparr>)\<rparr>)
                               else Inl OutOfBounds))))"


section \<open>Uniforms and programs\<close>

definition getSize :: "UniformType \<Rightarrow> uint" where
  "getSize type' =
     (case type' of
        INT' \<Rightarrow> 4
      | FLOAT \<Rightarrow> 4
      | VEC2 \<Rightarrow> 4 * 2
      | VEC3 \<Rightarrow> 4 * 3
      | VEC4 \<Rightarrow> 4 * 4
      | MAT4 \<Rightarrow> 4 * 16
      | MAT4X3 \<Rightarrow> 4 * 12
      | MAT3X4 \<Rightarrow> 4 * 12)"

text \<open>
  \<open>allocUniform\<close> looks the CRC32 of the name up in the table and returns the slot found
  there. Otherwise it takes a slot from the pool, fills it, gives it a zeroed block of
  \<open>getSize(type) * count\<close> bytes and enters it in the table. The checksum \<open>crc32\<close> is a
  function of the engine that is not among the sources; the model takes it as an argument.
  The table is only used through \<open>find\<close> and \<open>insert\<close>.
\<close>

definition allocUniform ::
  "(string \<Rightarrow> uint) \<Rightarrow> ffr \<Rightarrow> string \<Rightarrow> UniformType \<Rightarrow> int \<Rightarrow> error + (uint \<times> event list \<times> ffr)" where
  "allocUniform crc32 g name type' count =
     (let name_hash = crc32 name
      in case uniforms_hash_map g name_hash of
           Some v \<Rightarrow> Inr (v, [], g)
         | None \<Rightarrow>
             if isFull (uniforms g)
             then Inr (INVALID_UNIFORM, [LogError ''Renderer'' ''FFR is out of free uniform slots.''], g)
             else
               (case alloc (uniforms g) of
                  Inl e \<Rightarrow> Inl e
                | Inr (id', pool') \<Rightarrow>
                    (let byte_size = unat (getSize type' * word_of_int count);
                         u = \<lparr>u_type = type', u_count = word_of_int count, u_data = next_block g\<rparr>
                     in Inr (word_of_int id', [],
                             g\<lparr>uniforms := pool',
                               uniform_objs := (uniform_objs g)(nat id' := u),
                               heap := (heap g)(next_block g \<mapsto> replicate byte_size 0),
                               next_block := Suc (next_block g),
                               uniforms_hash_map := (uniforms_hash_map g)(name_hash \<mapsto> word_of_int id')\<rparr>))))"

text \<open>
  The enumeration \<open>ShaderType\<close> is declared in \<open>ffr.h\<close>; the source names \<open>FRAGMENT\<close> and
  \<open>VERTEX\<close> and asserts on every other value, which \<open>OTHER\<close> stands for.
\<close>

datatype ShaderType = FRAGMENT | VERTEX | OTHER

definition shaderTypeToString :: "ShaderType \<Rightarrow> string" where
  "shaderTypeToString type' =
     (case type' of
        FRAGMENT \<Rightarrow> ''fragment shader''
      | VERTEX \<Rightarrow> ''vertex shader''
      | OTHER \<Rightarrow> ''unknown shader type'')"

text \<open>
  What the graphics library answers during \<open>createProgram\<close>: the name of the program, for
  the stage with index \<open>i\<close> the name of its shader, its compile status and its info log, the
  link status and the info log of the program, and for each active uniform its name, size,
  type and location.
\<close>

record shader_reply =
  sr_shd :: uint
  sr_compile_status :: uint
  sr_log_len :: int
  sr_log :: string

record uniform_reply =
  ur_name :: string
  ur_size :: int
  ur_type :: uint
  ur_loc :: int

record gl_replies =
  r_prg :: uint
  r_shader :: "nat \<Rightarrow> shader_reply"
  r_linked :: uint
  r_link_log_len :: int
  r_link_log :: string
  r_uniforms_count :: int
  r_uniform :: "nat \<Rightarrow> uniform_reply"

text \<open>
  The loop over the stages. It returns \<open>False\<close> where the source returns \<open>INVALID_PROGRAM\<close>
  from inside the loop.
\<close>

fun compile_stages ::
  "string \<Rightarrow> string list \<Rightarrow> gl_replies \<Rightarrow> nat \<Rightarrow> (string \<times> ShaderType) list \<Rightarrow> error + (bool \<times> event list)" where
  "compile_stages name prefixes env i [] = Inr (True, [])"
| "compile_stages name prefixes env i ((src, type') # rest) =
     (case (case type' of
              FRAGMENT \<Rightarrow> Some GL_FRAGMENT_SHADER
            | VERTEX \<Rightarrow> Some GL_VERTEX_SHADER
            | OTHER \<Rightarrow> None) of
        None \<Rightarrow> Inl AssertionFailed
      | Some shader_type \<Rightarrow>
          (let shd = sr_shd (r_shader env i);
               compile = [GL (CreateShader shader_type),
                          GL (ShaderSource shd (prefixes @ [src])),
                          GL (CompileShader shd),
                          GL (GetShaderiv shd GL_COMPILE_STATUS)]
           in if sr_compile_status (r_shader env i) = GL_FALSE
              then Inr (False,
                     compile @ [GL (GetShaderiv shd GL_INFO_LOG_LENGTH)] @
                     (if sr_log_len (r_shader env i) > 0
                      then [GL (GetShaderInfoLog shd),
                            LogError ''Renderer''
                              (name @ '' - '' @ shaderTypeToString type' @ '': '' @
                               sr_log (r_shader env i))]
                      else [LogError ''Renderer''
                              (''Failed to compile shader '' @ name @ '' - '' @
                               shaderTypeToString type')]) @
                     [GL (DeleteShader shd)])
              else
                (case compile_stages name prefixes env (Suc i) rest of
                   Inl e \<Rightarrow> Inl e
                 | Inr (ok, evs) \<Rightarrow>
                     Inr (ok, compile @
                              [GL (AttachShader (r_prg env) shd), GL (DeleteShader shd)] @ evs))))"

definition uniform_type_of_gl :: "uint \<Rightarrow> UniformType option" where
  "uniform_type_of_gl type' =
     (if type' = GL_SAMPLER_CUBE \<or> type' = GL_SAMPLER_2D \<or> type' = GL_INT then Some INT'
      else if type' = GL_FLOAT then Some FLOAT
      else if type' = GL_FLOAT_VEC2 then Some VEC2
      else if type' = GL_FLOAT_VEC3 then Some VEC3
      else if type' = GL_FLOAT_VEC4 then Some VEC4
      else if type' = GL_FLOAT_MAT4 then Some MAT4
      else if type' = GL_FLOAT_MAT4x3 then Some MAT4X3
      else if type' = GL_FLOAT_MAT3x4 then Some MAT3X4
      else None)"

text \<open>
  The loop over the active uniforms; the first argument counts the uniforms still to do. It
  returns the \<open>(loc, uniform)\<close> pairs it records in the program. A type outside the switch
  fails the assertion of its default branch.
\<close>

fun reflect_uniforms ::
  "(string \<Rightarrow> uint) \<Rightarrow> gl_replies \<Rightarrow> nat \<Rightarrow> nat \<Rightarrow> ffr \<Rightarrow>
     error + (event list \<times> (int \<times> uint) list \<times> ffr)" where
  "reflect_uniforms crc32 env 0 i g = Inr ([], [], g)"
| "reflect_uniforms crc32 env (Suc n) i g =
     (case uniform_type_of_gl (ur_type (r_uniform env i)) of
        None \<Rightarrow> Inl AssertionFailed
      | Some ffr_type \<Rightarrow>
          (let query = [GL (GetActiveUniform (r_prg env) i),
                        GL (GetUniformLocation (r_prg env) (ur_name (r_uniform env i)))];
               loc = ur_loc (r_uniform env i)
           in if loc \<ge> 0
              then
                (case allocUniform crc32 g (ur_name (r_uniform env i)) ffr_type
                        (ur_size (r_uniform env i)) of
                   Inl e \<Rightarrow> Inl e
                 | Inr (u, evs, g') \<Rightarrow>
                     (case reflect_uniforms crc32 env n (Suc i) g' of
                        Inl e \<Rightarrow> Inl e
                      | Inr (evs', us, g'') \<Rightarrow> Inr (query @ evs @ evs', (loc, u) # us, g'')))
              else
                (case reflect_uniforms crc32 env n (Suc i) g of
                   Inl e \<Rightarrow> Inl e
                 | Inr (evs', us, g'') \<Rightarrow> Inr (query @ evs', us, g''))))"

text \<open>
  \<open>createProgram\<close> gets the stages as two arrays \<open>srcs\<close> and \<open>types\<close> of \<open>num\<close> entries and
  the prefixes as an array of \<open>prefixes_count\<close> entries; the model gets the list of the
  stages and the list of the prefixes.
\<close>

definition createProgram ::
  "(string \<Rightarrow> uint) \<Rightarrow> gl_replies \<Rightarrow> ffr \<Rightarrow> nat \<Rightarrow> (string \<times> ShaderType) list \<Rightarrow> string list \<Rightarrow> string \<Rightarrow>
     error + (uint \<times> event list \<times> ffr)" where
  "createProgram crc32 env g caller stages prefixes name =
     (case checkThread g caller of
        Inl e \<Rightarrow> Inl e
      | Inr _ \<Rightarrow>
          if isFull (programs g)
          then Inr (INVALID_PROGRAM, [LogError ''Renderer'' ''FFR is out of free program slots.''], g)
          else if \<not> length prefixes < 16 - 1 then Inl AssertionFailed
          else if length stages > 16
          then Inr (INVALID_PROGRAM,
                    [LogError ''Renderer'' (''Too many shaders per program in '' @ name)], g)
          else
            (case compile_stages name prefixes env 0 stages of
               Inl e \<Rightarrow> Inl e
             | Inr (False, evs) \<Rightarrow> Inr (INVALID_PROGRAM, GL CreateProgram # evs, g)
             | Inr (True, evs) \<Rightarrow>
                 (let prg = r_prg env;
                      link = [GL (LinkProgram prg), GL (GetProgramiv prg GL_LINK_STATUS)]
                  in if r_linked env = GL_FALSE
                     then Inr (INVALID_PROGRAM,
                            GL CreateProgram # evs @ link @
                            [GL (GetProgramiv prg GL_INFO_LOG_LENGTH)] @
                            (if r_link_log_len env > 0
                             then [GL (GetProgramInfoLog prg),
                                   LogError ''Renderer'' (name @ '': '' @ r_link_log env)]
                             else [LogError ''Renderer'' (''Failed to link program '' @ name)]) @
                            [GL (DeleteProgram prg)], g)
                     else
                       (case alloc (programs g) of
                          Inl e \<Rightarrow> Inl e
                        | Inr (id', pool') \<Rightarrow>
                            (let too_many = (r_uniforms_count env > 32);
                                 uniforms_count = (if too_many then 32 else r_uniforms_count env);
                                 count_evs = GL (GetProgramiv prg GL_ACTIVE_UNIFORMS) #
                                   (if too_many
                                    then [LogError ''Renderer''
                                            ''Too many uniforms per program, not all will be used.'']
                                    else [])
                             in case reflect_uniforms crc32 env (nat uniforms_count) 0
                                       (g\<lparr>programs := pool'\<rparr>) of
                                  Inl e \<Rightarrow> Inl e
                                | Inr (evs', us, g') \<Rightarrow>
                                    Inr (word_of_int id',
                                         GL CreateProgram # evs @ link @ count_evs @ evs',
                                         g'\<lparr>program_objs := (program_objs g')
                                              (nat id' := \<lparr>p_handle = prg, p_uniforms = us\<rparr>)\<rparr>))))))"

text \<open>
  The loop of \<open>useProgram\<close> over the uniforms of the program: each is uploaded from the block
  its slot points to.
\<close>

fun upload_uniforms :: "ffr \<Rightarrow> (int \<times> uint) list \<Rightarrow> error + event list" where
  "upload_uniforms g [] = Inr []"
| "upload_uniforms g ((loc, uniform) # rest) =
     (if \<not> unat uniform < length (pool_values (uniforms g)) then Inl OutOfBounds
      else
        (case heap g (u_data (uniform_objs g (unat uniform))) of
           None \<Rightarrow> Inl OutOfBounds
         | Some bytes \<Rightarrow>
             (case upload_uniforms g rest of
                Inl e \<Rightarrow> Inl e
              | Inr evs \<Rightarrow>
                  (let u = uniform_objs g (unat uniform)
                   in Inr (GL (case u_type u of
                                 MAT4 \<Rightarrow> UniformMatrix4fv loc (u_count u) bytes
                               | MAT4X3 \<Rightarrow> UniformMatrix4x3fv loc (u_count u) bytes
                               | MAT3X4 \<Rightarrow> UniformMatrix3x4fv loc (u_count u) bytes
                               | VEC4 \<Rightarrow> Uniform4fv loc (u_count u) bytes
                               | VEC3 \<Rightarrow> Uniform3fv loc (u_count u) bytes
                               | VEC2 \<Rightarrow> Uniform2fv loc (u_count u) bytes
                               | FLOAT \<Rightarrow> Uniform1fv loc (u_count u) bytes
                               | INT' \<Rightarrow> Uniform1i loc (take 4 bytes)) # evs)))))"

text \<open>
  An entry point is called by a thread, \<open>caller\<close>. \<open>useProgram\<close> does not look at it.
\<close>

definition useProgram :: "ffr \<Rightarrow> nat \<Rightarrow> uint \<Rightarrow> error + (event list \<times> ffr)" where
  "useProgram g caller handle =
     (if \<not> isValid handle then Inr ([], g)
      else if \<not> unat handle < length (pool_values (programs g)) then Inl OutOfBounds
      else
        (case upload_uniforms g (p_uniforms (program_objs g (unat handle))) of
           Inl e \<Rightarrow> Inl e
         | Inr evs \<Rightarrow> Inr (GL (UseProgram (p_handle (program_objs g (unat handle)))) # evs, g)))"

definition viewport :: "ffr \<Rightarrow> nat \<Rightarrow> uint \<Rightarrow> uint \<Rightarrow> uint \<Rightarrow> uint \<Rightarrow> error + (event list \<times> ffr)" where
  "viewport g caller x y w h =
     (case checkThread g caller of
        Inl e \<Rightarrow> Inl e
      | Inr _ \<Rightarrow> Inr ([GL (Viewport x y w h)], g))"


section \<open>Notions used to state the properties\<close>

subsection \<open>The free list of a pool\<close>

text \<open>
  \<open>chain vs ff fl\<close>: following the links \<open>vs\<close> from the head \<open>ff\<close> visits the slots \<open>fl\<close> in
  order and then reaches \<open>-1\<close>. \<open>pool_inv p live fl\<close>: the free list of \<open>p\<close> is \<open>fl\<close>, no slot
  is twice in it, no handle is held twice, and every slot is either free or held.
\<close>

fun chain :: "int list \<Rightarrow> int \<Rightarrow> nat list \<Rightarrow> bool" where
  "chain vs ff [] = (ff = - 1)"
| "chain vs ff (x # xs) = (ff = int x \<and> x < length vs \<and> chain vs (vs ! x) xs)"

definition pool_inv :: "Pool \<Rightarrow> int list \<Rightarrow> nat list \<Rightarrow> bool" where
  "pool_inv p live fl =
     (chain (pool_values p) (first_free p) fl \<and> distinct fl \<and> distinct live \<and>
      set live \<inter> int ` set fl = {} \<and>
      set live \<union> int ` set fl = int ` {0..<length (pool_values p)})"

subsection \<open>The calls of a run\<close>

fun uploads :: "event list \<Rightarrow> gl_call list" where
  "uploads [] = []"
| "uploads (GL (CompressedTexImage2D t l f w h n) # es) = CompressedTexImage2D t l f w h n # uploads es"
| "uploads (GL (TexImage2D t l f w h x y) # es) = TexImage2D t l f w h x y # uploads es"
| "uploads (e # es) = uploads es"

fun reads :: "event list \<Rightarrow> uint list" where
  "reads [] = []"
| "reads (Read n # es) = n # reads es"
| "reads (e # es) = reads es"

fun gl_calls :: "event list \<Rightarrow> gl_call list" where
  "gl_calls [] = []"
| "gl_calls (GL c # es) = c # gl_calls es"
| "gl_calls (e # es) = gl_calls es"

fun is_link :: "gl_call \<Rightarrow> bool" where
  "is_link (LinkProgram prg) = True"
| "is_link c = False"

text \<open>
  The line \<open>createProgram\<close> writes to the log for a stage that did not compile: the info log
  of the shader when the library reports one, else a fixed message.
\<close>

definition compile_diagnostic :: "string \<Rightarrow> ShaderType \<Rightarrow> shader_reply \<Rightarrow> event" where
  "compile_diagnostic name type' reply =
     (if sr_log_len reply > 0
      then LogError ''Renderer'' (name @ '' - '' @ shaderTypeToString type' @ '': '' @ sr_log reply)
      else LogError ''Renderer''
             (''Failed to compile shader '' @ name @ '' - '' @ shaderTypeToString type'))"

subsection \<open>The size rule of the mip chain\<close>

text \<open>
  The extent of level \<open>i\<close> of an image whose level 0 has extent \<open>w\<close>: each level halves the
  extent of the one before, rounding down, and keeps at least 1. \<open>level_bytes\<close> is the number
  of bytes of a block-compressed level: one block for each started 4 by 4 tile.
\<close>

fun mip_extent :: "uint \<Rightarrow> nat \<Rightarrow> uint" where
  "mip_extent w 0 = w"
| "mip_extent w (Suc i) = max 1 (mip_extent w i div 2)"

definition level_bytes :: "uint \<Rightarrow> uint \<Rightarrow> uint \<Rightarrow> uint" where
  "level_bytes w h blockBytes = ((w + 3) div 4) * ((h + 3) div 4) * blockBytes"

definition face_uploads :: "uint \<Rightarrow> uint \<Rightarrow> uint \<Rightarrow> uint \<Rightarrow> uint \<Rightarrow> nat \<Rightarrow> gl_call list" where
  "face_uploads target format w h blockBytes mips =
     map (\<lambda>i. CompressedTexImage2D target (of_nat i) format (mip_extent w i) (mip_extent h i)
                 (level_bytes (mip_extent w i) (mip_extent h i) blockBytes))
         [0..<mips]"

text \<open>
  What the size rule asks of a whole container. The number of faces, the number of levels
  and the target of a face are read from the header as \<open>loadTexture\<close> reads them; the
  number of bytes of a block is 8 for DXT1 and ATI1 and 16 for DXT3, DXT5 and ATI2.
\<close>

definition is_cube :: "Header \<Rightarrow> bool" where
  "is_cube hdr = (caps_dwCaps2 (hdr_caps2 hdr) AND DDSCAPS2_CUBEMAP \<noteq> 0)"

definition mip_levels :: "Header \<Rightarrow> nat" where
  "mip_levels hdr =
     unat (if hdr_dwFlags hdr AND DDSD_MIPMAPCOUNT \<noteq> 0 then hdr_dwMipMapCount hdr else 1)"

definition face_target :: "Header \<Rightarrow> nat \<Rightarrow> uint" where
  "face_target hdr side =
     (if is_cube hdr then GL_TEXTURE_CUBE_MAP_POSITIVE_X + of_nat side else GL_TEXTURE_2D)"

definition block_bytes_of :: "PixelFormat \<Rightarrow> uint" where
  "block_bytes_of pf = (if isDXT1 pf \<or> isATI1 pf then 8 else 16)"

definition container_uploads :: "Header \<Rightarrow> uint \<Rightarrow> gl_call list" where
  "container_uploads hdr format =
     concat (map (\<lambda>side. face_uploads (face_target hdr side) format
                            (hdr_dwWidth hdr) (hdr_dwHeight hdr)
                            (block_bytes_of (hdr_pixelFormat hdr)) (mip_levels hdr))
                 [0..<(if is_cube hdr then 6 else 1)])"

definition container_reads :: "Header \<Rightarrow> uint list" where
  "container_reads hdr =
     128 # concat (map (\<lambda>side. map (\<lambda>i. level_bytes (mip_extent (hdr_dwWidth hdr) i)
                                              (mip_extent (hdr_dwHeight hdr) i)
                                              (block_bytes_of (hdr_pixelFormat hdr)))
                                    [0..<mip_levels hdr])
                       [0..<(if is_cube hdr then 6 else 1)])"

subsection \<open>Sequences of uniform requests\<close>

fun allocUniforms ::
  "(string \<Rightarrow> uint) \<Rightarrow> ffr \<Rightarrow> (string \<times> UniformType \<times> int) list \<Rightarrow> error + ffr" where
  "allocUniforms crc32 g [] = Inr g"
| "allocUniforms crc32 g ((name, type', count) # rest) =
     (case allocUniform crc32 g name type' count of
        Inl e \<Rightarrow> Inl e
      | Inr (u, evs, g') \<Rightarrow> allocUniforms crc32 g' rest)"

subsection \<open>Sample inputs\<close>

text \<open>
  A small device state owned by thread 0: pools of two slots, as \<open>create\<close> leaves them, except
  that slot 0 of the program pool is taken by a program with the native name 7 and no
  uniforms.
\<close>

definition fresh2 :: Pool where
  "fresh2 = \<lparr>pool_values = [1, - 1], first_free = 0\<rparr>"

definition sample_device :: ffr where
  "sample_device =
     \<lparr>thread = 0,
      textures = fresh2,
      texture_objs = (\<lambda>i. \<lparr>t_handle = 0, t_cubemap = False\<rparr>),
      uniforms = fresh2,
      uniform_objs = (\<lambda>i. \<lparr>u_type = INT', u_count = 0, u_data = 0\<rparr>),
      programs = \<lparr>pool_values = [1, - 1], first_free = 1\<rparr>,
      program_objs = (\<lambda>i. \<lparr>p_handle = 7, p_uniforms = []\<rparr>),
      uniforms_hash_map = Map.empty,
      heap = Map.empty,
      next_block = 0\<rparr>"

text \<open>
  A header of a 4 by 4 DXT1 image without mip levels, and variants of it: as an 8 by 8 image
  with four mip levels; with a wrong magic number; as a cube map; as an ATI1 image that
  declares 16 bytes; as an uncompressed image of 24 bits with the masks of BGR.
\<close>

definition dxt1_4x4 :: Header where
  "dxt1_4x4 =
     \<lparr>hdr_dwMagic = 0x20534444, hdr_dwSize = 124, hdr_dwFlags = 0x00081007,
      hdr_dwHeight = 4, hdr_dwWidth = 4, hdr_dwPitchOrLinearSize = 8, hdr_dwDepth = 0,
      hdr_dwMipMapCount = 0, hdr_dwReserved1 = replicate 11 0,
      hdr_pixelFormat =
        \<lparr>pf_dwSize = 32, pf_dwFlags = 0x00000004, pf_dwFourCC = 0x31545844,
         pf_dwRGBBitCount = 0, pf_dwRBitMask = 0, pf_dwGBitMask = 0, pf_dwBBitMask = 0,
         pf_dwAlphaBitMask = 0\<rparr>,
      hdr_caps2 = \<lparr>caps_dwCaps1 = 0x00001000, caps_dwCaps2 = 0, caps_dwDDSX = 0,
                   caps_dwReserved = 0\<rparr>,
      hdr_dwReserved2 = 0\<rparr>"

definition dxt1_8x8_mips :: Header where
  "dxt1_8x8_mips = dxt1_4x4\<lparr>hdr_dwFlags := 0x000A1007, hdr_dwHeight := 8, hdr_dwWidth := 8,
                           hdr_dwPitchOrLinearSize := 32, hdr_dwMipMapCount := 4\<rparr>"

definition bad_magic_4x4 :: Header where
  "bad_magic_4x4 = dxt1_4x4\<lparr>hdr_dwMagic := 0x20534445\<rparr>"

definition cube_4x4 :: Header where
  "cube_4x4 = dxt1_4x4\<lparr>hdr_caps2 := \<lparr>caps_dwCaps1 = 0x00001008, caps_dwCaps2 = 0x0000FE00,
                                        caps_dwDDSX = 0, caps_dwReserved = 0\<rparr>\<rparr>"

definition ati1_4x4 :: Header where
  "ati1_4x4 =
     dxt1_4x4\<lparr>hdr_dwPitchOrLinearSize := 16,
              hdr_pixelFormat :=
                \<lparr>pf_dwSize = 32, pf_dwFlags = 0x00000004, pf_dwFourCC = 0x31495441,
                 pf_dwRGBBitCount = 0, pf_dwRBitMask = 0, pf_dwGBitMask = 0, pf_dwBBitMask = 0,
                 pf_dwAlphaBitMask = 0\<rparr>\<rparr>"

definition bgr8_4x4 :: Header where
  "bgr8_4x4 =
     dxt1_4x4\<lparr>hdr_dwFlags := 0x0000100F, hdr_dwPitchOrLinearSize := 12,
              hdr_pixelFormat :=
                \<lparr>pf_dwSize = 32, pf_dwFlags = 0x00000040, pf_dwFourCC = 0,
                 pf_dwRGBBitCount = 24, pf_dwRBitMask = 0xff0000, pf_dwGBitMask = 0xff00,
                 pf_dwBBitMask = 0xff, pf_dwAlphaBitMask = 0\<rparr>\<rparr>"

text \<open>
  The answers of the graphics library for a program of two stages of which the second does
  not compile, and a checksum that tells the names used below apart.
\<close>

definition failing_replies :: gl_replies where
  "failing_replies =
     \<lparr>r_prg = 3,
      r_shader = (\<lambda>i. if i = 1
                       then \<lparr>sr_shd = 5, sr_compile_status = 0, sr_log_len = 13,
                             sr_log = ''syntax error''\<rparr>
                       else \<lparr>sr_shd = 4, sr_compile_status = 1, sr_log_len = 0, sr_log = []\<rparr>),
      r_linked = 1, r_link_log_len = 0, r_link_log = [],
      r_uniforms_count = 0,
      r_uniform = (\<lambda>i. \<lparr>ur_name = [], ur_size = 1, ur_type = 0x1406, ur_loc = 0\<rparr>)\<rparr>"

definition sample_crc :: "string \<Rightarrow> uint" where
  "sample_crc name = of_nat (length name)"

text \<open>
  The sample device after a uniform of two \<open>VEC4\<close> has been requested under a name of three
  letters, and after a \<open>FLOAT\<close> has then been requested under a name of two letters.
\<close>

definition sample_device_abc :: ffr where
  "sample_device_abc =
     sample_device\<lparr>uniforms := \<lparr>pool_values = [1, - 1], first_free = 1\<rparr>,
       uniform_objs := (uniform_objs sample_device)
         (0 := \<lparr>u_type = VEC4, u_count = 2, u_data = 0\<rparr>),
       heap := (heap sample_device)(0 \<mapsto> replicate 32 0),
       next_block := 1,
       uniforms_hash_map := (uniforms_hash_map sample_device)(3 \<mapsto> 0)\<rparr>"

definition sample_device_abc_ab :: ffr where
  "sample_device_abc_ab =
     sample_device_abc\<lparr>uniforms := \<lparr>pool_values = [1, - 1], first_free = - 1\<rparr>,
       uniform_objs := (uniform_objs sample_device_abc)
         (1 := \<lparr>u_type = FLOAT, u_count = 1, u_data = 1\<rparr>),
       heap := (heap sample_device_abc)(1 \<mapsto> replicate 4 0),
       next_block := 2,
       uniforms_hash_map := (uniforms_hash_map sample_device_abc)(2 \<mapsto> 1)\<rparr>"

section \<open>Properties of the handle pool\<close>

subsection \<open>The free list\<close>

lemma chain_update: "chain vs ff fl \<Longrightarrow> i \<notin> set fl \<Longrightarrow> chain (vs[i := v]) ff fl"
  by (induction fl arbitrary: ff) auto

lemma chain_fresh:
  "j < N \<Longrightarrow> chain ((map (\<lambda>i. int i + 1) [0..<N])[N - 1 := - 1]) (int j) [j..<N]"
proof (induction "N - j" arbitrary: j)
  case 0
  then show ?case by simp
next
  case (Suc d)
  have split: "[j..<N] = j # [Suc j..<N]" using Suc.prems by (simp add: upt_conv_Cons)
  show ?case
  proof (cases "Suc j = N")
    case True
    then have "N - 1 = j" by simp
    then show ?thesis using Suc.prems True by (simp add: split nth_list_update)
  next
    case False
    then have lt: "Suc j < N" using Suc.prems by simp
    have d: "d = N - Suc j" using Suc.hyps(2) by simp
    have "chain ((map (\<lambda>i. int i + 1) [0..<N])[N - 1 := - 1]) (int (Suc j)) [Suc j..<N]"
      using Suc.hyps(1)[OF d lt] .
    then show ?thesis using Suc.prems lt by (simp add: split nth_list_update add.commute)
  qed
qed

lemma create_inv:
  assumes "0 < N" "create N = Inr p"
  shows "pool_inv p [] [0..<N]" "length (pool_values p) = N"
  using assms chain_fresh[of 0 N] by (auto simp: create_def pool_inv_def)

lemma alloc_chain_Nil:
  "chain (pool_values p) (first_free p) [] \<Longrightarrow> alloc p = Inr (- 1, p)"
  by (simp add: alloc_def)

lemma alloc_chain_Cons:
  "chain (pool_values p) (first_free p) (x # xs) \<Longrightarrow>
   alloc p = Inr (int x, p\<lparr>first_free := pool_values p ! x\<rparr>)"
  by (simp add: alloc_def)

text \<open>
  Consecutive allocations hand out the free list from its head and then the sentinel.
\<close>

lemma allocs_chain:
  "chain (pool_values p) (first_free p) fl \<Longrightarrow>
   \<exists>p'. allocs k p = Inr (map int (take k fl) @ replicate (k - length fl) (- 1), p') \<and>
        pool_values p' = pool_values p \<and> chain (pool_values p') (first_free p') (drop k fl)"
proof (induction k arbitrary: p fl)
  case 0
  then show ?case by simp
next
  case (Suc k)
  show ?case
  proof (cases fl)
    case Nil
    then have a: "alloc p = Inr (- 1, p)" using Suc.prems alloc_chain_Nil by simp
    from Suc.IH[of p "[]"] Suc.prems Nil obtain p' where
      "allocs k p = Inr (replicate k (- 1), p')" "pool_values p' = pool_values p"
      "chain (pool_values p') (first_free p') []" by auto
    then show ?thesis using a Nil by (simp add: replicate_app_Cons_same)
  next
    case (Cons x xs)
    let ?q = "p\<lparr>first_free := pool_values p ! x\<rparr>"
    have a: "alloc p = Inr (int x, ?q)" using Suc.prems Cons alloc_chain_Cons by simp
    have c: "chain (pool_values ?q) (first_free ?q) xs" using Suc.prems Cons by simp
    from Suc.IH[OF c] obtain p' where
      "allocs k ?q = Inr (map int (take k xs) @ replicate (k - length xs) (- 1), p')"
      "pool_values p' = pool_values ?q" "chain (pool_values p') (first_free p') (drop k xs)" by auto
    then show ?thesis using a Cons by simp
  qed
qed

lemma alloc_inv:
  assumes "pool_inv p live fl"
  shows "\<exists>i p'. alloc p = Inr (i, p') \<and> length (pool_values p') = length (pool_values p) \<and>
           pool_inv p' (if i = - 1 then live else i # live) (tl fl)"
proof (cases fl)
  case Nil
  then show ?thesis using assms alloc_chain_Nil[of p] by (simp add: pool_inv_def)
next
  case (Cons x xs)
  let ?q = "p\<lparr>first_free := pool_values p ! x\<rparr>"
  have c: "chain (pool_values p) (first_free p) (x # xs)" using assms Cons by (simp add: pool_inv_def)
  have a: "alloc p = Inr (int x, ?q)" using c by (rule alloc_chain_Cons)
  have "pool_inv ?q (int x # live) xs"
    using assms Cons unfolding pool_inv_def by auto
  then show ?thesis using a Cons by simp
qed

lemma sint_nonneg_unat:
  assumes "0 \<le> sint (w :: uint)"
  shows "int (unat w) = sint w"
proof -
  have "sint w < 2 ^ 32" using sint_lt[of w] by simp
  then have "take_bit 32 (sint w) = sint w" using assms by (simp add: take_bit_int_eq_self)
  then show ?thesis using uint_sint[of w] by simp
qed

lemma dealloc_inv:
  assumes inv: "pool_inv p live fl" and held: "sint idx \<in> set live"
  shows "\<exists>p'. dealloc idx p = Inr p' \<and> length (pool_values p') = length (pool_values p) \<and>
           pool_inv p' (remove1 (sint idx) live) (unat idx # fl)"
proof -
  let ?N = "length (pool_values p)"
  have "sint idx \<in> int ` {0..<?N}" using inv held unfolding pool_inv_def by blast
  then obtain n where n: "sint idx = int n" "n < ?N" by auto
  then have u: "unat idx = n" using sint_nonneg_unat[of idx] by linarith
  have nfl: "n \<notin> set fl" using inv held n unfolding pool_inv_def by auto
  let ?q = "\<lparr>pool_values = (pool_values p)[n := first_free p], first_free = int n\<rparr>"
  have d: "dealloc idx p = Inr ?q" using n u by (simp add: dealloc_def)
  have c: "chain (pool_values ?q) (first_free ?q) (n # fl)"
    using inv nfl n chain_update[of "pool_values p" "first_free p" fl n "first_free p"]
    by (simp add: pool_inv_def)
  have dl: "distinct live" using inv by (simp add: pool_inv_def)
  have s1: "set (remove1 (int n) live) = set live - {int n}" using dl by simp
  have "pool_inv ?q (remove1 (int n) live) (n # fl)"
    unfolding pool_inv_def using c inv nfl held n s1 dl
    by (auto simp: pool_inv_def)
  then show ?thesis using d n u by simp
qed

lemma store_inv:
  assumes inv: "pool_inv p live fl" and held: "sint idx \<in> set live"
  shows "\<exists>p'. store idx v p = Inr p' \<and> length (pool_values p') = length (pool_values p) \<and>
           pool_inv p' live fl"
proof -
  let ?N = "length (pool_values p)"
  have "sint idx \<in> int ` {0..<?N}" using inv held unfolding pool_inv_def by blast
  then obtain n where n: "sint idx = int n" "n < ?N" by auto
  then have u: "unat idx = n" using sint_nonneg_unat[of idx] by linarith
  have nfl: "n \<notin> set fl" using inv held n unfolding pool_inv_def by auto
  let ?q = "p\<lparr>pool_values := (pool_values p)[n := v]\<rparr>"
  have d: "store idx v p = Inr ?q" using n u by (simp add: store_def)
  have c: "chain (pool_values ?q) (first_free ?q) fl"
    using inv nfl chain_update[of "pool_values p" "first_free p" fl n v]
    by (simp add: pool_inv_def)
  have "pool_inv ?q live fl"
    unfolding pool_inv_def using c inv by (simp add: pool_inv_def)
  then show ?thesis using d by simp
qed

lemma exec_all_inv:
  "pool_inv p live fl \<Longrightarrow> disciplined (p, live) ops \<Longrightarrow>
   \<exists>p' live' fl'. exec_all (p, live) ops = Inr (p', live') \<and>
      length (pool_values p') = length (pool_values p) \<and> pool_inv p' live' fl'"
proof (induction ops arbitrary: p live fl)
  case Nil
  then show ?case by auto
next
  case (Cons x xs)
  show ?case
  proof (cases x)
    case Alloc
    from alloc_inv[OF Cons.prems(1)] obtain i q where
      a: "alloc p = Inr (i, q)" and l: "length (pool_values q) = length (pool_values p)"
      and i: "pool_inv q (if i = - 1 then live else i # live) (tl fl)" by blast
    have d: "disciplined (q, if i = - 1 then live else i # live) xs"
      using Cons.prems(2) Alloc a by simp
    from Cons.IH[OF i d] show ?thesis using Alloc a l by auto
  next
    case (Dealloc idx)
    have held: "sint idx \<in> set live" using Cons.prems(2) Dealloc by simp
    from dealloc_inv[OF Cons.prems(1) held] obtain q where
      a: "dealloc idx p = Inr q" and l: "length (pool_values q) = length (pool_values p)"
      and i: "pool_inv q (remove1 (sint idx) live) (unat idx # fl)" by blast
    have d: "disciplined (q, remove1 (sint idx) live) xs"
      using Cons.prems(2) Dealloc a by simp
    from Cons.IH[OF i d] show ?thesis using Dealloc a l by auto
  next
    case (Store idx v)
    have held: "sint idx \<in> set live" using Cons.prems(2) Store by simp
    from store_inv[OF Cons.prems(1) held] obtain q where
      a: "store idx v p = Inr q" and l: "length (pool_values q) = length (pool_values p)"
      and i: "pool_inv q live fl" by blast
    have d: "disciplined (q, live) xs" using Cons.prems(2) Store a by simp
    from Cons.IH[OF i d] show ?thesis using Store a l by auto
  qed
qed

lemma inv_counts:
  assumes "pool_inv p live fl"
  shows "length live + length fl = length (pool_values p)"
proof -
  have "card (set live \<union> int ` set fl) = card (set live) + card (int ` set fl)"
    using assms by (intro card_Un_disjoint) (auto simp: pool_inv_def)
  moreover have "card (int ` set fl) = card (set fl)" by (simp add: card_image)
  moreover have "card (int ` {0..<length (pool_values p)}) = length (pool_values p)"
    by (simp add: card_image)
  ultimately show ?thesis using assms by (simp add: pool_inv_def distinct_card)
qed

lemma inv_exhaust:
  assumes "pool_inv p live fl"
  shows "\<exists>rs p'. allocs (length (pool_values p)) p = Inr (rs, p') \<and> alloc p' = Inr (- 1, p')"
proof -
  have c: "chain (pool_values p) (first_free p) fl" using assms by (simp add: pool_inv_def)
  have le: "length fl \<le> length (pool_values p)" using inv_counts[OF assms] by simp
  from allocs_chain[OF c, of "length (pool_values p)"] obtain p' where
    a: "allocs (length (pool_values p)) p =
          Inr (map int (take (length (pool_values p)) fl) @
               replicate (length (pool_values p) - length fl) (- 1), p')"
    and c': "chain (pool_values p') (first_free p') (drop (length (pool_values p)) fl)" by blast
  have "chain (pool_values p') (first_free p') []" using c' le by simp
  then have "alloc p' = Inr (- 1, p')" by (rule alloc_chain_Nil)
  then show ?thesis using a by blast
qed

subsection \<open>Allocation order of a fresh pool\<close>

text \<open>
  C10. On a pool as \<open>create\<close> leaves it, with \<open>MAX_COUNT = N\<close>, the first \<open>k\<close> allocations
  (for \<open>k\<close> up to \<open>N\<close>) return the indices \<open>0, 1, ..., k - 1\<close> in this order.
\<close>

theorem fresh_allocs_ascending:
  assumes "0 < N" and "k \<le> N" and "create N = Inr p"
  shows "\<exists>p'. allocs k p = Inr (map int [0..<k], p')"
proof -
  have "pool_inv p [] [0..<N]" using create_inv[OF assms(1,3)] by simp
  then have c: "chain (pool_values p) (first_free p) [0..<N]" by (simp add: pool_inv_def)
  from allocs_chain[OF c, of k] show ?thesis using assms(2) by (auto simp: take_upt)
qed

theorem fresh_allocs_ascending_witness:
  "create 3 = Inr \<lparr>pool_values = [1, 2, - 1], first_free = 0\<rparr> \<and>
   (\<exists>p'. allocs 3 \<lparr>pool_values = [1, 2, - 1], first_free = 0\<rparr> = Inr ([0, 1, 2], p'))"
proof -
  have c: "create 3 = Inr \<lparr>pool_values = [1, 2, - 1], first_free = 0\<rparr>"
    by code_simp
  have "map int [0..<3] = [0, 1, 2]" by (simp add: upt_rec)
  then show ?thesis using c fresh_allocs_ascending[of 3 3, OF _ _ c] by simp
qed

subsection \<open>Recycling\<close>

text \<open>
  C7. Whatever the state of the pool, when \<open>alloc\<close> has just returned an index \<open>i\<close> (not the
  sentinel), \<open>dealloc(i)\<close> followed by \<open>alloc()\<close> returns \<open>i\<close> again.
\<close>

theorem dealloc_alloc_lifo:
  assumes "alloc p = Inr (i, p')" and "i \<noteq> - 1" and "capacity_fits p"
  shows "\<exists>q q'. dealloc (word_of_int i) p' = Inr q \<and> alloc q = Inr (i, q')"
proof -
  have r: "0 \<le> i" "nat i < length (pool_values p)" "length (pool_values p') = length (pool_values p)"
    using assms(1,2) by (auto simp: alloc_def split: if_splits)
  have b: "i < 2 ^ 31" using r assms(3) by (simp add: capacity_fits_def)
  have s: "sint (word_of_int i :: uint) = i" using r(1) b
    by (simp add: signed_of_int signed_take_bit_int_eq_self)
  have "int (unat (word_of_int i :: uint)) = i"
    using s sint_nonneg_unat[of "word_of_int i"] r(1) by simp
  then have u: "unat (word_of_int i :: uint) = nat i" by linarith
  show ?thesis using r s u assms(2) by (simp add: dealloc_def alloc_def)
qed

theorem dealloc_alloc_lifo_witness:
  "alloc \<lparr>pool_values = [2, 0, - 1], first_free = 1\<rparr> =
     Inr (1, \<lparr>pool_values = [2, 0, - 1], first_free = 0\<rparr>) \<and>
   (\<exists>q q'. dealloc 1 \<lparr>pool_values = [2, 0, - 1], first_free = 0\<rparr> = Inr q \<and> alloc q = Inr (1, q'))"
proof -
  have a: "alloc \<lparr>pool_values = [2, 0, - 1], first_free = 1\<rparr> =
     Inr (1, \<lparr>pool_values = [2, 0, - 1], first_free = 0\<rparr>)"
    by (simp add: alloc_def)
  have c: "capacity_fits \<lparr>pool_values = [2, 0, - 1], first_free = 1\<rparr>"
    by (simp add: capacity_fits_def)
  show ?thesis using a dealloc_alloc_lifo[OF a _ c] by simp
qed

subsection \<open>Capacity\<close>

text \<open>
  C1, as stated, fails: the pool does not check the index given to \<open>dealloc\<close>. On a pool of
  one slot, the calls \<open>alloc\<close>, \<open>dealloc(0)\<close>, \<open>dealloc(0)\<close> leave slot 0 linked to itself.
  The two allocations that follow both return 0, so that the client holds two handles of
  a pool of capacity one, and the allocation after them returns 0 again, not the sentinel.
\<close>

theorem double_dealloc_counterexample:
  "create 1 = Inr \<lparr>pool_values = [- 1], first_free = 0\<rparr> \<and>
   exec_all (\<lparr>pool_values = [- 1], first_free = 0\<rparr>, [])
     [Alloc, Dealloc 0, Dealloc 0, Alloc, Alloc] =
     Inr (\<lparr>pool_values = [0], first_free = 0\<rparr>, [0, 0]) \<and>
   alloc \<lparr>pool_values = [0], first_free = 0\<rparr> = Inr (0, \<lparr>pool_values = [0], first_free = 0\<rparr>)"
  by (simp add: create_def alloc_def dealloc_def)

text \<open>
  C1, amended. Take a pool as \<open>create\<close> leaves it, with \<open>MAX_COUNT = N\<close>, and any sequence of
  \<open>alloc\<close> and \<open>dealloc\<close> calls in which every \<open>dealloc\<close> is given a handle the client holds
  at that moment (the client may also write to the slots it holds). Then every call
  succeeds, the client never holds more than \<open>N\<close> handles, no handle is held twice, and
  after \<open>N\<close> further consecutive allocations the next \<open>alloc\<close> returns the sentinel \<open>-1\<close>.
  Every prefix of such a sequence is such a sequence, so the bound holds after each call.
\<close>

theorem pool_live_bounded:
  assumes "0 < N" and "create N = Inr p0" and "disciplined (p0, []) ops"
  shows "\<exists>p live. exec_all (p0, []) ops = Inr (p, live) \<and> length live \<le> N \<and> distinct live \<and>
            (\<exists>rs p'. allocs N p = Inr (rs, p') \<and> alloc p' = Inr (- 1, p'))"
proof -
  have i0: "pool_inv p0 [] [0..<N]" and l0: "length (pool_values p0) = N"
    using create_inv[OF assms(1,2)] by simp_all
  from exec_all_inv[OF i0 assms(3)] obtain p live fl where
    e: "exec_all (p0, []) ops = Inr (p, live)" and l: "length (pool_values p) = N"
    and i: "pool_inv p live fl" using l0 by auto
  have "length live \<le> N" using inv_counts[OF i] l by simp
  moreover have "distinct live" using i by (simp add: pool_inv_def)
  moreover have "\<exists>rs p'. allocs N p = Inr (rs, p') \<and> alloc p' = Inr (- 1, p')"
    using inv_exhaust[OF i] l by simp
  ultimately show ?thesis using e by blast
qed

theorem pool_live_bounded_witness:
  "create 2 = Inr fresh2 \<and>
   disciplined (fresh2, []) [Alloc, Store 0 7, Alloc, Dealloc 0, Alloc, Alloc] \<and>
   (\<exists>p live. exec_all (fresh2, []) [Alloc, Store 0 7, Alloc, Dealloc 0, Alloc, Alloc] =
        Inr (p, live) \<and>
      length live \<le> 2 \<and> distinct live \<and>
      (\<exists>rs p'. allocs 2 p = Inr (rs, p') \<and> alloc p' = Inr (- 1, p')))"
proof -
  have c: "create 2 = Inr fresh2" by code_simp
  have d: "disciplined (fresh2, []) [Alloc, Store 0 7, Alloc, Dealloc 0, Alloc, Alloc]"
    by (simp add: fresh2_def alloc_def dealloc_def store_def)
  show ?thesis using c d pool_live_bounded[OF _ c d] by simp
qed

section \<open>Properties of the texture container decoder\<close>

lemmas dds_consts =
  DDS_MAGIC_def DDSD_CAPS_def DDSD_PITCH_def DDSD_PIXELFORMAT_def DDSD_MIPMAPCOUNT_def
  DDSD_LINEARSIZE_def DDPF_ALPHAPIXELS_def DDPF_FOURCC_def DDPF_INDEXED_def DDPF_RGB_def
  DDSCAPS2_CUBEMAP_def D3DFMT_ATI1_def D3DFMT_ATI2_def D3DFMT_DXT1_def D3DFMT_DXT3_def
  D3DFMT_DXT5_def

lemmas gl_consts =
  GL_ZERO_def GL_FALSE_def GL_TRUE_def GL_TEXTURE_2D_def GL_TEXTURE_CUBE_MAP_def
  GL_TEXTURE_CUBE_MAP_POSITIVE_X_def GL_COMPRESSED_RGBA_S3TC_DXT1_EXT_def
  GL_COMPRESSED_RGBA_S3TC_DXT3_EXT_def GL_COMPRESSED_RGBA_S3TC_DXT5_EXT_def
  GL_COMPRESSED_SRGB_ALPHA_S3TC_DXT1_EXT_def GL_COMPRESSED_SRGB_ALPHA_S3TC_DXT3_EXT_def
  GL_COMPRESSED_SRGB_ALPHA_S3TC_DXT5_EXT_def GL_COMPRESSED_RED_RGTC1_def
  GL_COMPRESSED_RG_RGTC2_def GL_TEXTURE_MIN_FILTER_def GL_TEXTURE_MAG_FILTER_def
  GL_LINEAR_def GL_LINEAR_MIPMAP_LINEAR_def GL_TEXTURE_MAX_LEVEL_def

lemmas format_tests =
  isDXT1_def isDXT3_def isDXT5_def isATI1_def isATI2_def isBGRA8_def isBGR8_def isBGR5A1_def
  isBGR565_def isINDEX8_def

lemmas load_infos =
  loadInfoDXT1_def loadInfoDXT3_def loadInfoDXT5_def loadInfoATI1_def loadInfoATI2_def
  loadInfoBGRA8_def loadInfoBGR8_def loadInfoBGR5A1_def loadInfoBGR565_def loadInfoIndex8_def

subsection \<open>Rejection of a malformed header\<close>

text \<open>
  C2. Called by the owning thread with a header whose magic number is not \<open>0x20534444\<close>, or
  whose size field is not 124, or whose flags lack the pixel-format bit or the capabilities
  bit, \<open>loadTexture\<close> returns \<open>false\<close>. It has read the header and written one line to the
  log; it has made no call of the graphics library, so no texture was generated, and the
  device state is as before.
\<close>

theorem bad_header_rejected:
  assumes "thread g = caller"
    and "hdr_dwMagic hdr \<noteq> DDS_MAGIC \<or> hdr_dwSize hdr \<noteq> 124 \<or>
         hdr_dwFlags hdr AND DDSD_PIXELFORMAT = 0 \<or> hdr_dwFlags hdr AND DDSD_CAPS = 0"
  shows "\<exists>evs. loadTexture SRGB g caller handle hdr flags want_info texture =
                 Inr (False, evs, None, g) \<and> gl_calls evs = []"
  using assms by (auto simp: loadTexture_def checkThread_def)

theorem bad_header_rejected_witness:
  "thread sample_device = 0 \<and> hdr_dwMagic bad_magic_4x4 \<noteq> DDS_MAGIC \<and>
   (\<exists>evs. loadTexture 1 sample_device 0 0 bad_magic_4x4 0 True 9 =
            Inr (False, evs, None, sample_device) \<and> gl_calls evs = [])"
proof -
  have t: "thread sample_device = 0" by (simp add: sample_device_def)
  have m: "hdr_dwMagic bad_magic_4x4 \<noteq> DDS_MAGIC"
    by (simp add: bad_magic_4x4_def DDS_MAGIC_def)
  show ?thesis
    using t m bad_header_rejected[of sample_device 0 bad_magic_4x4 1 0 0 True 9] by simp
qed

subsection \<open>Uncompressed 24-bit BGR\<close>

lemma isBGR8_never: "\<not> isBGR8 pf"
  by (simp add: isBGR8_def)

lemma loadInfoBGR8_unreachable: "select_load_info pf \<noteq> Some loadInfoBGR8"
  by (simp add: select_load_info_def isBGR8_never load_infos)

text \<open>
  C5 does not hold of the code. \<open>isBGR8\<close> asks for the alpha-pixels flag to be set and, in
  its next line, to be clear (its siblings \<open>isBGR565\<close> and \<open>isBGRA8\<close> ask for the RGB flag
  first), so it holds of no pixel format and the branch of \<open>loadInfoBGR8\<close> is never taken.
  A well-formed header whose pixel format has the RGB flag set, the alpha-pixels and
  four-character-code flags clear, 24 bits and the masks \<open>0xff0000\<close>, \<open>0xff00\<close>, \<open>0xff\<close> is rejected
  as unmatched: \<open>loadTexture\<close> returns \<open>false\<close> after reading the header.
\<close>

theorem bgr8_rejected:
  assumes "thread g = caller"
    and "hdr_dwMagic hdr = DDS_MAGIC" and "hdr_dwSize hdr = 124"
    and "hdr_dwFlags hdr AND DDSD_PIXELFORMAT \<noteq> 0" and "hdr_dwFlags hdr AND DDSD_CAPS \<noteq> 0"
    and "pf_dwFlags (hdr_pixelFormat hdr) AND DDPF_RGB \<noteq> 0"
    and "pf_dwFlags (hdr_pixelFormat hdr) AND DDPF_ALPHAPIXELS = 0"
    and "pf_dwFlags (hdr_pixelFormat hdr) AND DDPF_FOURCC = 0"
    and "pf_dwRGBBitCount (hdr_pixelFormat hdr) = 24"
    and "pf_dwRBitMask (hdr_pixelFormat hdr) = 0xff0000"
    and "pf_dwGBitMask (hdr_pixelFormat hdr) = 0xff00"
    and "pf_dwBBitMask (hdr_pixelFormat hdr) = 0xff"
  shows "select_load_info (hdr_pixelFormat hdr) = None \<and>
         loadTexture SRGB g caller handle hdr flags want_info texture =
           Inr (False, [Read 128], None, g)"
proof -
  have "select_load_info (hdr_pixelFormat hdr) = None"
    using assms(6-9) by (simp add: select_load_info_def format_tests)
  then show ?thesis
    using assms(1-5) by (simp add: loadTexture_def checkThread_def)
qed

theorem bgr8_rejected_witness:
  "select_load_info (hdr_pixelFormat bgr8_4x4) = None \<and>
   loadTexture 1 sample_device 0 0 bgr8_4x4 0 True 9 = Inr (False, [Read 128], None, sample_device)"
  using bgr8_rejected[of sample_device 0 bgr8_4x4 1 0 0 True 9]
  by (simp add: sample_device_def bgr8_4x4_def dxt1_4x4_def dds_consts)

subsection \<open>The mip chain of a block-compressed image\<close>

lemma uploads_append: "uploads (a @ b) = uploads a @ uploads b"
  by (induction a rule: uploads.induct) simp_all

lemma reads_append: "reads (a @ b) = reads a @ reads b"
  by (induction a rule: reads.induct) simp_all

lemma mip_extent_shift: "mip_extent (max 1 (drop_bit 1 w)) i = mip_extent w (Suc i)"
  by (induction i) (simp_all add: drop_bit_eq_div)

lemma upt_Suc_shift: "[0..<Suc n] = 0 # map Suc [0..<n]"
  by (simp add: upt_conv_Cons map_Suc_upt del: upt_Suc)

lemma compressed_mips_uploads:
  "uploads (compressed_mips tgt ttgt fmt n ix w h (sizeDXTC w h fmt)) =
     map (\<lambda>i. CompressedTexImage2D tgt (ix + of_nat i) fmt (mip_extent w i) (mip_extent h i)
                 (sizeDXTC (mip_extent w i) (mip_extent h i) fmt))
         [0..<n]"
proof (induction n arbitrary: ix w h)
  case 0
  show ?case by simp
next
  case (Suc n)
  let ?w = "max 1 (drop_bit 1 w)" and ?h = "max 1 (drop_bit 1 h)"
  have "uploads (compressed_mips tgt ttgt fmt (Suc n) ix w h (sizeDXTC w h fmt)) =
          CompressedTexImage2D tgt ix fmt w h (sizeDXTC w h fmt) #
          uploads (compressed_mips tgt ttgt fmt n (ix + 1) ?w ?h (sizeDXTC ?w ?h fmt))"
    by simp
  also have "uploads (compressed_mips tgt ttgt fmt n (ix + 1) ?w ?h (sizeDXTC ?w ?h fmt)) =
          map (\<lambda>i. CompressedTexImage2D tgt (ix + of_nat (Suc i)) fmt
                      (mip_extent w (Suc i)) (mip_extent h (Suc i))
                      (sizeDXTC (mip_extent w (Suc i)) (mip_extent h (Suc i)) fmt))
              [0..<n]"
    unfolding Suc.IH mip_extent_shift by (simp add: add.assoc)
  finally show ?case
    unfolding upt_Suc_shift[of n] by (simp add: comp_def del: mip_extent.simps(2))
qed

lemma compressed_mips_reads:
  "reads (compressed_mips tgt ttgt fmt n ix w h (sizeDXTC w h fmt)) =
     map (\<lambda>i. sizeDXTC (mip_extent w i) (mip_extent h i) fmt) [0..<n]"
proof (induction n arbitrary: ix w h)
  case 0
  show ?case by simp
next
  case (Suc n)
  let ?w = "max 1 (drop_bit 1 w)" and ?h = "max 1 (drop_bit 1 h)"
  have "reads (compressed_mips tgt ttgt fmt (Suc n) ix w h (sizeDXTC w h fmt)) =
          sizeDXTC w h fmt #
          reads (compressed_mips tgt ttgt fmt n (ix + 1) ?w ?h (sizeDXTC ?w ?h fmt))"
    by simp
  also have "reads (compressed_mips tgt ttgt fmt n (ix + 1) ?w ?h (sizeDXTC ?w ?h fmt)) =
          map (\<lambda>i. sizeDXTC (mip_extent w (Suc i)) (mip_extent h (Suc i)) fmt) [0..<n]"
    unfolding Suc.IH mip_extent_shift by simp
  finally show ?case
    unfolding upt_Suc_shift[of n] by (simp add: comp_def del: mip_extent.simps(2))
qed

text \<open>
  \<open>sizeDXTC\<close> takes the number of bytes of a block from the format it is given, not from
  the \<open>LoadInfo\<close>.
\<close>

lemma sizeDXTC_level_bytes:
  "sizeDXTC w h fmt =
     level_bytes w h (if fmt = GL_COMPRESSED_RGBA_S3TC_DXT1_EXT \<or>
                         fmt = GL_COMPRESSED_SRGB_ALPHA_S3TC_DXT1_EXT \<or>
                         fmt = GL_COMPRESSED_RED_RGTC1 then 8 else 16)"
  by (simp add: sizeDXTC_def level_bytes_def)

lemma sides_loop_True:
  "sides_loop body sides = (True, evs) \<Longrightarrow> evs = concat (map (\<lambda>s. snd (body s)) sides)"
proof (induction sides arbitrary: evs)
  case Nil
  then show ?case by simp
next
  case (Cons s sides)
  obtain ok e where b: "body s = (ok, e)" by (cases "body s")
  obtain ok' e' where r: "sides_loop body sides = (ok', e')" by (cases "sides_loop body sides")
  from Cons.prems b r have "ok" "ok'" "evs = e @ e'" by (auto split: if_splits bool.splits)
  then show ?case using Cons.IH[of e'] b r by simp
qed

lemma sides_loop_all_True:
  "sides_loop body sides = (True, evs) \<Longrightarrow> s \<in> set sides \<Longrightarrow> fst (body s)"
proof (induction sides arbitrary: evs)
  case Nil
  then show ?case by simp
next
  case (Cons t sides)
  obtain ok e where b: "body t = (ok, e)" by (cases "body t")
  obtain ok' e' where r: "sides_loop body sides = (ok', e')" by (cases "sides_loop body sides")
  from Cons.prems(1) b r have "ok" "ok'" by (auto split: if_splits bool.splits)
  then show ?case using Cons.IH[of e'] Cons.prems(2) b r by auto
qed

lemma load_side_compressed:
  assumes "li_compressed li"
    and "load_side hdr li cube texture fmt mips side = (True, evs)"
  shows "uploads evs =
           map (\<lambda>i. CompressedTexImage2D
                       (if cube then GL_TEXTURE_CUBE_MAP_POSITIVE_X + of_nat side else GL_TEXTURE_2D)
                       (of_nat i) fmt (mip_extent (hdr_dwWidth hdr) i) (mip_extent (hdr_dwHeight hdr) i)
                       (sizeDXTC (mip_extent (hdr_dwWidth hdr) i) (mip_extent (hdr_dwHeight hdr) i) fmt))
               [0..<unat mips]"
    and "reads evs =
           map (\<lambda>i. sizeDXTC (mip_extent (hdr_dwWidth hdr) i) (mip_extent (hdr_dwHeight hdr) i) fmt)
               [0..<unat mips]"
proof -
  have u: "uploads (compressed_mips tgt ttgt fmt n 0 w h sz) =
             map (\<lambda>i. CompressedTexImage2D tgt (of_nat i) fmt (mip_extent w i) (mip_extent h i)
                         (sizeDXTC (mip_extent w i) (mip_extent h i) fmt)) [0..<n]"
    if "sizeDXTC w h fmt = sz" for tgt ttgt n w h sz
    using compressed_mips_uploads[of tgt ttgt fmt n 0 w h] that by simp
  have r: "reads (compressed_mips tgt ttgt fmt n 0 w h sz) =
             map (\<lambda>i. sizeDXTC (mip_extent w i) (mip_extent h i) fmt) [0..<n]"
    if "sizeDXTC w h fmt = sz" for tgt ttgt n w h sz
    using compressed_mips_reads[of tgt ttgt fmt n 0 w h] that by simp
  show "uploads evs =
           map (\<lambda>i. CompressedTexImage2D
                       (if cube then GL_TEXTURE_CUBE_MAP_POSITIVE_X + of_nat side else GL_TEXTURE_2D)
                       (of_nat i) fmt (mip_extent (hdr_dwWidth hdr) i) (mip_extent (hdr_dwHeight hdr) i)
                       (sizeDXTC (mip_extent (hdr_dwWidth hdr) i) (mip_extent (hdr_dwHeight hdr) i) fmt))
               [0..<unat mips]"
    using assms by (auto simp: load_side_def Let_def uploads_append u split: if_splits)
  show "reads evs =
           map (\<lambda>i. sizeDXTC (mip_extent (hdr_dwWidth hdr) i) (mip_extent (hdr_dwHeight hdr) i) fmt)
               [0..<unat mips]"
    using assms by (auto simp: load_side_def Let_def reads_append r split: if_splits)
qed

lemma compressed_infos:
  assumes "select_load_info pf = Some li" and "li_compressed li"
  shows "(isDXT1 pf \<and> li = loadInfoDXT1) \<or> (isDXT3 pf \<and> li = loadInfoDXT3) \<or>
         (isDXT5 pf \<and> li = loadInfoDXT5) \<or> (isATI1 pf \<and> li = loadInfoATI1) \<or>
         (isATI2 pf \<and> li = loadInfoATI2)"
  using assms by (auto simp: select_load_info_def load_infos split: if_splits)

lemma block_rule_of_format:
  assumes "select_load_info pf = Some li" and "li_compressed li"
    and "\<not> (isATI1 pf \<and> srgb)"
  shows "sizeDXTC w h (if srgb then li_internalSRGBFormat li else li_internalFormat li) =
           level_bytes w h (block_bytes_of pf)"
    and "li_blockBytes li = block_bytes_of pf"
  using compressed_infos[OF assms(1,2)] assms(3)
  by (auto simp: sizeDXTC_level_bytes block_bytes_of_def load_infos gl_consts format_tests
        dds_consts)

text \<open>
  For every block-compressed container that \<open>loadTexture\<close> accepts, other than an ATI1
  container loaded with the SRGB flag: for each face (six of a cube map, else one) and each
  mip level \<open>i\<close> of it, in this order, \<open>loadTexture\<close> reads and uploads
  \<open>((w\<^sub>i + 3) / 4) * ((h\<^sub>i + 3) / 4) * blockBytes\<close> bytes, in the unsigned 32-bit arithmetic of
  the source, where \<open>w\<^sub>0\<close> and \<open>h\<^sub>0\<close> are the extents of the header, each further level halves
  them, rounding down, and keeps them at least 1, and \<open>blockBytes\<close> is 8 for DXT1 and ATI1
  and 16 for DXT3, DXT5 and ATI2, as the \<open>LoadInfo\<close> of the format says.
\<close>

theorem compressed_container_sizes:
  assumes "loadTexture SRGB g caller handle hdr flags want_info texture = Inr (True, evs, info, g')"
    and "select_load_info (hdr_pixelFormat hdr) = Some li" and "li_compressed li"
    and "\<not> (isATI1 (hdr_pixelFormat hdr) \<and> flags AND SRGB \<noteq> 0)"
  shows "uploads evs =
           container_uploads hdr
             (if flags AND SRGB \<noteq> 0 then li_internalSRGBFormat li else li_internalFormat li) \<and>
         reads evs = container_reads hdr \<and>
         li_blockBytes li = block_bytes_of (hdr_pixelFormat hdr)"
proof -
  let ?cube = "caps_dwCaps2 (hdr_caps2 hdr) AND DDSCAPS2_CUBEMAP \<noteq> 0"
  let ?fmt = "if flags AND SRGB \<noteq> 0 then li_internalSRGBFormat li else li_internalFormat li"
  let ?mips = "if hdr_dwFlags hdr AND DDSD_MIPMAPCOUNT \<noteq> 0 then hdr_dwMipMapCount hdr else 1"
  let ?sides = "[0..<(if ?cube then 6 else 1)]"
  let ?body = "load_side hdr li ?cube texture ?fmt ?mips"
  obtain ok es where sl: "sides_loop ?body ?sides = (ok, es)" by (cases "sides_loop ?body ?sides")
  have ok: "ok" and evs: "evs = Read 128 # GL GenTextures # es"
    using assms(1,2) sl
    by (auto simp: loadTexture_def Let_def split: sum.splits if_splits bool.splits)
  have es: "es = concat (map (\<lambda>s. snd (?body s)) ?sides)"
    using sides_loop_True[of ?body ?sides es] sl ok by simp
  have each: "?body s = (True, snd (?body s))" if "s \<in> set ?sides" for s
    using sides_loop_all_True[of ?body ?sides es s] sl ok that by (cases "?body s") simp
  have rule: "sizeDXTC w h ?fmt = level_bytes w h (block_bytes_of (hdr_pixelFormat hdr))" for w h
    using block_rule_of_format(1)[OF assms(2,3,4)] by simp
  have up: "uploads (snd (?body s)) =
              face_uploads (face_target hdr s) ?fmt (hdr_dwWidth hdr) (hdr_dwHeight hdr)
                (block_bytes_of (hdr_pixelFormat hdr)) (mip_levels hdr)"
    if "s \<in> set ?sides" for s
    using load_side_compressed(1)[OF assms(3) each[OF that]]
    by (simp add: face_uploads_def face_target_def is_cube_def mip_levels_def rule)
  have rd: "reads (snd (?body s)) =
              map (\<lambda>i. level_bytes (mip_extent (hdr_dwWidth hdr) i) (mip_extent (hdr_dwHeight hdr) i)
                          (block_bytes_of (hdr_pixelFormat hdr)))
                  [0..<mip_levels hdr]"
    if "s \<in> set ?sides" for s
    using load_side_compressed(2)[OF assms(3) each[OF that]]
    by (simp add: mip_levels_def rule)
  have cu: "uploads (concat (map f xs)) = concat (map (\<lambda>x. uploads (f x)) xs)" for f and xs :: "nat list"
    by (induction xs) (simp_all add: uploads_append)
  have cr: "reads (concat (map f xs)) = concat (map (\<lambda>x. reads (f x)) xs)" for f and xs :: "nat list"
    by (induction xs) (simp_all add: reads_append)
  have "uploads evs = concat (map (\<lambda>s. uploads (snd (?body s))) ?sides)"
    unfolding evs es by (simp add: cu)
  also have "\<dots> = container_uploads hdr ?fmt"
    unfolding container_uploads_def is_cube_def[symmetric]
    using up by (intro arg_cong[where f = concat] map_cong) (simp_all add: is_cube_def)
  finally have 1: "uploads evs = container_uploads hdr ?fmt" .
  have "reads evs = 128 # concat (map (\<lambda>s. reads (snd (?body s))) ?sides)"
    unfolding evs es by (simp add: cr)
  also have "\<dots> = container_reads hdr"
  proof -
    have "concat (map (\<lambda>s. reads (snd (?body s))) ?sides) =
          concat (map (\<lambda>s. map (\<lambda>i. level_bytes (mip_extent (hdr_dwWidth hdr) i)
                                           (mip_extent (hdr_dwHeight hdr) i)
                                           (block_bytes_of (hdr_pixelFormat hdr)))
                                 [0..<mip_levels hdr]) ?sides)"
      using rd by (intro arg_cong[where f = concat] map_cong) simp_all
    then show ?thesis unfolding container_reads_def is_cube_def by simp
  qed
  finally have 2: "reads evs = container_reads hdr" .
  show ?thesis using 1 2 block_rule_of_format(2)[OF assms(2,3,4)] by simp
qed

lemmas sample_headers =
  dxt1_4x4_def dxt1_8x8_mips_def bad_magic_4x4_def cube_4x4_def ati1_4x4_def bgr8_4x4_def

lemma compressed_mips_numeral:
  "compressed_mips tgt ttgt fmt (numeral k) ix w h sz =
     [Read sz,
      GL (CompressedTexImage2D tgt ix fmt w h sz),
      GL (TexParameteri ttgt GL_TEXTURE_MIN_FILTER GL_LINEAR_MIPMAP_LINEAR),
      GL (TexParameteri ttgt GL_TEXTURE_MAG_FILTER GL_LINEAR)] @
     compressed_mips tgt ttgt fmt (pred_numeral k) (ix + 1)
       (max 1 (drop_bit 1 w)) (max 1 (drop_bit 1 h))
       (sizeDXTC (max 1 (drop_bit 1 w)) (max 1 (drop_bit 1 h)) fmt)"
  by (simp add: numeral_eq_Suc)

lemmas run_loadTexture =
  loadTexture_def checkThread_def load_side_def sizeDXTC_def compressed_mips_numeral
  sample_device_def fresh2_def sample_headers dds_consts gl_consts

theorem compressed_container_sizes_witness:
  "loadTexture 1 sample_device 0 0 dxt1_8x8_mips 0 False 9 =
     Inr (True,
          [Read 128, GL GenTextures, GL (BindTexture GL_TEXTURE_2D 9),
           Read 32, GL (CompressedTexImage2D GL_TEXTURE_2D 0 GL_COMPRESSED_RGBA_S3TC_DXT1_EXT 8 8 32),
           GL (TexParameteri GL_TEXTURE_2D GL_TEXTURE_MIN_FILTER GL_LINEAR_MIPMAP_LINEAR),
           GL (TexParameteri GL_TEXTURE_2D GL_TEXTURE_MAG_FILTER GL_LINEAR),
           Read 8, GL (CompressedTexImage2D GL_TEXTURE_2D 1 GL_COMPRESSED_RGBA_S3TC_DXT1_EXT 4 4 8),
           GL (TexParameteri GL_TEXTURE_2D GL_TEXTURE_MIN_FILTER GL_LINEAR_MIPMAP_LINEAR),
           GL (TexParameteri GL_TEXTURE_2D GL_TEXTURE_MAG_FILTER GL_LINEAR),
           Read 8, GL (CompressedTexImage2D GL_TEXTURE_2D 2 GL_COMPRESSED_RGBA_S3TC_DXT1_EXT 2 2 8),
           GL (TexParameteri GL_TEXTURE_2D GL_TEXTURE_MIN_FILTER GL_LINEAR_MIPMAP_LINEAR),
           GL (TexParameteri GL_TEXTURE_2D GL_TEXTURE_MAG_FILTER GL_LINEAR),
           Read 8, GL (CompressedTexImage2D GL_TEXTURE_2D 3 GL_COMPRESSED_RGBA_S3TC_DXT1_EXT 1 1 8),
           GL (TexParameteri GL_TEXTURE_2D GL_TEXTURE_MIN_FILTER GL_LINEAR_MIPMAP_LINEAR),
           GL (TexParameteri GL_TEXTURE_2D GL_TEXTURE_MAG_FILTER GL_LINEAR),
           GL (TexParameteri GL_TEXTURE_2D GL_TEXTURE_MAX_LEVEL 3)],
          None,
          sample_device\<lparr>texture_objs := (texture_objs sample_device)
                           (0 := \<lparr>t_handle = 9, t_cubemap = False\<rparr>)\<rparr>) \<and>
   container_uploads dxt1_8x8_mips GL_COMPRESSED_RGBA_S3TC_DXT1_EXT =
     [CompressedTexImage2D GL_TEXTURE_2D 0 GL_COMPRESSED_RGBA_S3TC_DXT1_EXT 8 8 32,
      CompressedTexImage2D GL_TEXTURE_2D 1 GL_COMPRESSED_RGBA_S3TC_DXT1_EXT 4 4 8,
      CompressedTexImage2D GL_TEXTURE_2D 2 GL_COMPRESSED_RGBA_S3TC_DXT1_EXT 2 2 8,
      CompressedTexImage2D GL_TEXTURE_2D 3 GL_COMPRESSED_RGBA_S3TC_DXT1_EXT 1 1 8] \<and>
   container_reads dxt1_8x8_mips = [128, 32, 8, 8, 8]"
proof -
  let ?evs = "[Read 128, GL GenTextures, GL (BindTexture GL_TEXTURE_2D 9),
           Read 32, GL (CompressedTexImage2D GL_TEXTURE_2D 0 GL_COMPRESSED_RGBA_S3TC_DXT1_EXT 8 8 32),
           GL (TexParameteri GL_TEXTURE_2D GL_TEXTURE_MIN_FILTER GL_LINEAR_MIPMAP_LINEAR),
           GL (TexParameteri GL_TEXTURE_2D GL_TEXTURE_MAG_FILTER GL_LINEAR),
           Read 8, GL (CompressedTexImage2D GL_TEXTURE_2D 1 GL_COMPRESSED_RGBA_S3TC_DXT1_EXT 4 4 8),
           GL (TexParameteri GL_TEXTURE_2D GL_TEXTURE_MIN_FILTER GL_LINEAR_MIPMAP_LINEAR),
           GL (TexParameteri GL_TEXTURE_2D GL_TEXTURE_MAG_FILTER GL_LINEAR),
           Read 8, GL (CompressedTexImage2D GL_TEXTURE_2D 2 GL_COMPRESSED_RGBA_S3TC_DXT1_EXT 2 2 8),
           GL (TexParameteri GL_TEXTURE_2D GL_TEXTURE_MIN_FILTER GL_LINEAR_MIPMAP_LINEAR),
           GL (TexParameteri GL_TEXTURE_2D GL_TEXTURE_MAG_FILTER GL_LINEAR),
           Read 8, GL (CompressedTexImage2D GL_TEXTURE_2D 3 GL_COMPRESSED_RGBA_S3TC_DXT1_EXT 1 1 8),
           GL (TexParameteri GL_TEXTURE_2D GL_TEXTURE_MIN_FILTER GL_LINEAR_MIPMAP_LINEAR),
           GL (TexParameteri GL_TEXTURE_2D GL_TEXTURE_MAG_FILTER GL_LINEAR),
           GL (TexParameteri GL_TEXTURE_2D GL_TEXTURE_MAX_LEVEL 3)]"
  have li: "select_load_info (hdr_pixelFormat dxt1_8x8_mips) = Some loadInfoDXT1"
    by (simp add: select_load_info_def sample_headers format_tests dds_consts)
  have c: "li_compressed loadInfoDXT1" by (simp add: loadInfoDXT1_def)
  have n: "\<not> (isATI1 (hdr_pixelFormat dxt1_8x8_mips) \<and> (0 :: uint) AND 1 \<noteq> 0)" by simp
  have e: "loadTexture 1 sample_device 0 0 dxt1_8x8_mips 0 False 9 =
     Inr (True, ?evs, None,
          sample_device\<lparr>texture_objs := (texture_objs sample_device)
                           (0 := \<lparr>t_handle = 9, t_cubemap = False\<rparr>)\<rparr>)"
    using li by (simp add: run_loadTexture loadInfoDXT1_def)
  have u: "uploads ?evs =
     [CompressedTexImage2D GL_TEXTURE_2D 0 GL_COMPRESSED_RGBA_S3TC_DXT1_EXT 8 8 32,
      CompressedTexImage2D GL_TEXTURE_2D 1 GL_COMPRESSED_RGBA_S3TC_DXT1_EXT 4 4 8,
      CompressedTexImage2D GL_TEXTURE_2D 2 GL_COMPRESSED_RGBA_S3TC_DXT1_EXT 2 2 8,
      CompressedTexImage2D GL_TEXTURE_2D 3 GL_COMPRESSED_RGBA_S3TC_DXT1_EXT 1 1 8]"
    by simp
  have r: "reads ?evs = [128, 32, 8, 8, 8]" by simp
  from compressed_container_sizes[OF e li c n] u r
  show ?thesis using e by (simp add: loadInfoDXT1_def)
qed

text \<open>
  A 4 by 4 DXT1 container without mip levels gives one upload of
  \<open>((4 + 3) / 4) * ((4 + 3) / 4) * 8 = 8\<close> bytes; the same container as a cube map gives one
  such upload for each of its six faces.
\<close>

lemma dxt1_4x4_one_upload:
  "container_uploads dxt1_4x4 GL_COMPRESSED_RGBA_S3TC_DXT1_EXT =
     [CompressedTexImage2D GL_TEXTURE_2D 0 GL_COMPRESSED_RGBA_S3TC_DXT1_EXT 4 4 8] \<and>
   (\<exists>evs info g'. loadTexture 1 sample_device 0 0 dxt1_4x4 0 False 9 = Inr (True, evs, info, g') \<and>
      uploads evs = [CompressedTexImage2D GL_TEXTURE_2D 0 GL_COMPRESSED_RGBA_S3TC_DXT1_EXT 4 4 8])"
proof -
  have li: "select_load_info (hdr_pixelFormat dxt1_4x4) = Some loadInfoDXT1"
    by (simp add: select_load_info_def sample_headers format_tests dds_consts)
  have "container_uploads dxt1_4x4 GL_COMPRESSED_RGBA_S3TC_DXT1_EXT =
     [CompressedTexImage2D GL_TEXTURE_2D 0 GL_COMPRESSED_RGBA_S3TC_DXT1_EXT 4 4 8]"
    by (simp add: container_uploads_def face_uploads_def face_target_def is_cube_def
          mip_levels_def block_bytes_of_def level_bytes_def sample_headers format_tests dds_consts)
  then show ?thesis using li by (simp add: run_loadTexture loadInfoDXT1_def)
qed

lemma cube_4x4_six_uploads:
  "\<exists>evs info g'. loadTexture 1 sample_device 0 0 cube_4x4 0 False 9 = Inr (True, evs, info, g') \<and>
      uploads evs =
        [CompressedTexImage2D 0x8515 0 GL_COMPRESSED_RGBA_S3TC_DXT1_EXT 4 4 8,
         CompressedTexImage2D 0x8516 0 GL_COMPRESSED_RGBA_S3TC_DXT1_EXT 4 4 8,
         CompressedTexImage2D 0x8517 0 GL_COMPRESSED_RGBA_S3TC_DXT1_EXT 4 4 8,
         CompressedTexImage2D 0x8518 0 GL_COMPRESSED_RGBA_S3TC_DXT1_EXT 4 4 8,
         CompressedTexImage2D 0x8519 0 GL_COMPRESSED_RGBA_S3TC_DXT1_EXT 4 4 8,
         CompressedTexImage2D 0x851A 0 GL_COMPRESSED_RGBA_S3TC_DXT1_EXT 4 4 8]"
proof -
  have li: "select_load_info (hdr_pixelFormat cube_4x4) = Some loadInfoDXT1"
    by (simp add: select_load_info_def sample_headers format_tests dds_consts)
  have six: "[0..<6] = [0, 1, 2, 3, 4, 5]" by (simp add: upt_rec)
  show ?thesis using li by (simp add: run_loadTexture loadInfoDXT1_def six)
qed

text \<open>
  C3 does not hold of the code for ATI1. The \<open>LoadInfo\<close> of ATI1 gives 8 bytes to a block,
  but \<open>sizeDXTC\<close> chooses between 8 and 16 by the format it is called with, and with the
  SRGB flag that is the \<open>internalSRGBFormat\<close> of ATI1, \<open>GL_ZERO\<close>, which it takes for a format
  of 16 bytes. A 4 by 4 ATI1 container that declares 16 bytes is accepted with the SRGB
  flag, and its one level is read and uploaded with 16 bytes where the rule gives
  \<open>((4 + 3) / 4) * ((4 + 3) / 4) * 8 = 8\<close>. (Without the flag the same container is rejected.)
\<close>

theorem ati1_srgb_sixteen_bytes:
  "isATI1 (hdr_pixelFormat ati1_4x4) \<and>
   select_load_info (hdr_pixelFormat ati1_4x4) = Some loadInfoATI1 \<and>
   level_bytes 4 4 (li_blockBytes loadInfoATI1) = 8 \<and>
   loadTexture 1 sample_device 0 0 ati1_4x4 1 False 9 =
     Inr (True,
          [Read 128, GL GenTextures, GL (BindTexture GL_TEXTURE_2D 9),
           Read 16, GL (CompressedTexImage2D GL_TEXTURE_2D 0 GL_ZERO 4 4 16),
           GL (TexParameteri GL_TEXTURE_2D GL_TEXTURE_MIN_FILTER GL_LINEAR_MIPMAP_LINEAR),
           GL (TexParameteri GL_TEXTURE_2D GL_TEXTURE_MAG_FILTER GL_LINEAR),
           GL (TexParameteri GL_TEXTURE_2D GL_TEXTURE_MAX_LEVEL 0)],
          None,
          sample_device\<lparr>texture_objs := (texture_objs sample_device)
                           (0 := \<lparr>t_handle = 9, t_cubemap = False\<rparr>)\<rparr>)"
proof -
  have li: "select_load_info (hdr_pixelFormat ati1_4x4) = Some loadInfoATI1"
    by (simp add: select_load_info_def sample_headers format_tests dds_consts)
  have a: "isATI1 (hdr_pixelFormat ati1_4x4)"
    by (simp add: sample_headers format_tests dds_consts)
  have b: "level_bytes 4 4 (li_blockBytes loadInfoATI1) = 8"
    by (simp add: level_bytes_def loadInfoATI1_def)
  have e: "loadTexture 1 sample_device 0 0 ati1_4x4 1 False 9 =
     Inr (True,
          [Read 128, GL GenTextures, GL (BindTexture GL_TEXTURE_2D 9),
           Read 16, GL (CompressedTexImage2D GL_TEXTURE_2D 0 GL_ZERO 4 4 16),
           GL (TexParameteri GL_TEXTURE_2D GL_TEXTURE_MIN_FILTER GL_LINEAR_MIPMAP_LINEAR),
           GL (TexParameteri GL_TEXTURE_2D GL_TEXTURE_MAG_FILTER GL_LINEAR),
           GL (TexParameteri GL_TEXTURE_2D GL_TEXTURE_MAX_LEVEL 0)],
          None,
          sample_device\<lparr>texture_objs := (texture_objs sample_device)
                           (0 := \<lparr>t_handle = 9, t_cubemap = False\<rparr>)\<rparr>)"
    using li by (simp add: run_loadTexture loadInfoATI1_def)
  show ?thesis using li a b e by simp
qed

theorem ati1_srgb_sixteen_bytes_witness:
  "\<exists>evs info g'. loadTexture 1 sample_device 0 0 ati1_4x4 1 False 9 = Inr (True, evs, info, g') \<and>
      uploads evs = [CompressedTexImage2D GL_TEXTURE_2D 0 GL_ZERO 4 4 16] \<and>
      reads evs = [128, 16] \<and>
      uploads evs \<noteq> [CompressedTexImage2D GL_TEXTURE_2D 0 GL_ZERO 4 4
                         (level_bytes 4 4 (li_blockBytes loadInfoATI1))]"
  using ati1_srgb_sixteen_bytes by simp

lemma ati1_plain_rejected:
  "\<exists>evs. loadTexture 1 sample_device 0 0 ati1_4x4 0 False 9 = Inr (False, evs, None, sample_device) \<and>
      uploads evs = []"
proof -
  have li: "select_load_info (hdr_pixelFormat ati1_4x4) = Some loadInfoATI1"
    by (simp add: select_load_info_def sample_headers format_tests dds_consts)
  show ?thesis
    using li by (simp add: run_loadTexture loadInfoATI1_def)
qed

section \<open>Properties of the uniform table\<close>

lemma allocUniform_hit:
  "uniforms_hash_map g (crc32 name) = Some v \<Longrightarrow> allocUniform crc32 g name t c = Inr (v, [], g)"
  by (simp add: allocUniform_def)

lemma allocUniform_keeps_entry:
  assumes "uniforms_hash_map g k = Some v" and "allocUniform crc32 g n t c = Inr (h, e, g')"
  shows "uniforms_hash_map g' k = Some v"
  using assms
  by (auto simp: allocUniform_def Let_def split: option.splits if_splits sum.splits)

lemma allocUniforms_keep_entry:
  "uniforms_hash_map g k = Some v \<Longrightarrow> allocUniforms crc32 g calls = Inr g' \<Longrightarrow>
   uniforms_hash_map g' k = Some v"
proof (induction calls arbitrary: g)
  case Nil
  then show ?case by simp
next
  case (Cons call calls)
  obtain n t c where call: "call = (n, t, c)" by (cases call)
  from Cons.prems(2) call obtain h e g1 where
    a: "allocUniform crc32 g n t c = Inr (h, e, g1)" and r: "allocUniforms crc32 g1 calls = Inr g'"
    by (auto split: sum.splits)
  from allocUniform_keeps_entry[OF Cons.prems(1) a] have "uniforms_hash_map g1 k = Some v" .
  from Cons.IH[OF this r] show ?case .
qed

lemma allocUniform_full:
  assumes "isFull (uniforms g)" and "allocUniform crc32 g n t c = Inr (h, e, g')"
  shows "g' = g"
  using assms by (auto simp: allocUniform_def Let_def split: option.splits)

lemma allocUniforms_full:
  "isFull (uniforms g) \<Longrightarrow> allocUniforms crc32 g calls = Inr g' \<Longrightarrow> g' = g"
proof (induction calls arbitrary: g)
  case Nil
  then show ?case by simp
next
  case (Cons call calls)
  obtain n t c where call: "call = (n, t, c)" by (cases call)
  from Cons.prems(2) call obtain h e g1 where
    a: "allocUniform crc32 g n t c = Inr (h, e, g1)" and r: "allocUniforms crc32 g1 calls = Inr g'"
    by (auto split: sum.splits)
  have "g1 = g" using allocUniform_full[OF Cons.prems(1) a] .
  then show ?case using Cons.IH[of g] Cons.prems(1) r by simp
qed

lemma unat_of_index:
  assumes "0 \<le> i" and "i < 2 ^ 31"
  shows "unat (word_of_int i :: uint) = nat i"
proof -
  have "sint (word_of_int i :: uint) = i"
    using assms by (simp add: signed_of_int signed_take_bit_int_eq_self)
  then have "int (unat (word_of_int i :: uint)) = i"
    using sint_nonneg_unat[of "word_of_int i"] assms(1) by simp
  then show ?thesis by linarith
qed

text \<open>
  C6. When a call of \<open>allocUniform\<close> for a name has returned a slot, a later call for the same
  name returns the same slot, whatever type and count it is given and whatever requests
  for uniforms (of this or other names, so of this or other programs) were made in between,
  and it changes nothing in the device state: the type, the count and the block of the slot
  stay as they are, and a write through one of the two handles is a write to the block of
  the other. The slot holds the type and the count of the call that made it: after a first
  call for a name that was not in the table, with a free slot left, the slot has the type
  and count of that call and a zeroed block of \<open>getSize(type) * count\<close> bytes.
\<close>

theorem same_name_same_slot:
  assumes first: "allocUniform crc32 g name t1 c1 = Inr (h, evs1, g1)"
    and between: "allocUniforms crc32 g1 calls = Inr g2"
  shows "(\<exists>evs2. allocUniform crc32 g2 name t2 c2 = Inr (h, evs2, g2)) \<and>
         (uniforms_hash_map g (crc32 name) = None \<and> \<not> isFull (uniforms g) \<and>
          capacity_fits (uniforms g) \<longrightarrow>
            uniform_objs g1 (unat h) =
              \<lparr>u_type = t1, u_count = word_of_int c1, u_data = next_block g\<rparr> \<and>
            heap g1 (next_block g) = Some (replicate (unat (getSize t1 * word_of_int c1)) 0))"
proof (rule conjI)
  show "\<exists>evs2. allocUniform crc32 g2 name t2 c2 = Inr (h, evs2, g2)"
  proof (cases "uniforms_hash_map g (crc32 name)")
    case (Some v)
    then have "h = v" "g1 = g" using first by (simp_all add: allocUniform_def)
    then have "uniforms_hash_map g2 (crc32 name) = Some h"
      using allocUniforms_keep_entry[OF _ between] Some by simp
    then show ?thesis using allocUniform_hit by blast
  next
    case None
    show ?thesis
    proof (cases "isFull (uniforms g)")
      case True
      then have hg: "h = INVALID_UNIFORM" "g1 = g"
        using first None by (simp_all add: allocUniform_def)
      then have "g2 = g" using allocUniforms_full[OF _ between] True by simp
      then show ?thesis using None True hg by (simp add: allocUniform_def)
    next
      case False
      then have "uniforms_hash_map g1 (crc32 name) = Some h"
        using first None by (auto simp: allocUniform_def Let_def split: sum.splits)
      then have "uniforms_hash_map g2 (crc32 name) = Some h"
        using allocUniforms_keep_entry[OF _ between] by simp
      then show ?thesis using allocUniform_hit by blast
    qed
  qed
next
  show "uniforms_hash_map g (crc32 name) = None \<and> \<not> isFull (uniforms g) \<and>
          capacity_fits (uniforms g) \<longrightarrow>
            uniform_objs g1 (unat h) =
              \<lparr>u_type = t1, u_count = word_of_int c1, u_data = next_block g\<rparr> \<and>
            heap g1 (next_block g) = Some (replicate (unat (getSize t1 * word_of_int c1)) 0)"
  proof (rule impI)
  assume a: "uniforms_hash_map g (crc32 name) = None \<and> \<not> isFull (uniforms g) \<and>
             capacity_fits (uniforms g)"
  then obtain i pool' where al: "alloc (uniforms g) = Inr (i, pool')"
    using first by (auto simp: allocUniform_def Let_def split: sum.splits)
  have r: "0 \<le> i" "nat i < length (pool_values (uniforms g))"
    using al a by (auto simp: alloc_def isFull_def split: if_splits)
  have "nat i < 2147483648" using a r by (simp add: capacity_fits_def)
  then have "i < 2147483648" by linarith
  then have "i < 2 ^ 31" by simp
  then have u: "unat (word_of_int i :: uint) = nat i" using unat_of_index r(1) by simp
  have h: "h = word_of_int i" and g1: "g1 = g\<lparr>uniforms := pool',
        uniform_objs := (uniform_objs g)(nat i :=
           \<lparr>u_type = t1, u_count = word_of_int c1, u_data = next_block g\<rparr>),
        heap := (heap g)(next_block g \<mapsto> replicate (unat (getSize t1 * word_of_int c1)) 0),
        next_block := Suc (next_block g),
        uniforms_hash_map := (uniforms_hash_map g)(crc32 name \<mapsto> word_of_int i)\<rparr>"
    using first a al by (auto simp: allocUniform_def Let_def)
  show "uniform_objs g1 (unat h) =
          \<lparr>u_type = t1, u_count = word_of_int c1, u_data = next_block g\<rparr> \<and>
        heap g1 (next_block g) = Some (replicate (unat (getSize t1 * word_of_int c1)) 0)"
    unfolding g1 h u by simp
  qed
qed

theorem same_name_same_slot_witness:
  "allocUniform sample_crc sample_device ''abc'' VEC4 2 = Inr (0, [], sample_device_abc) \<and>
   allocUniforms sample_crc sample_device_abc [(''ab'', FLOAT, 1)] = Inr sample_device_abc_ab \<and>
   (\<exists>evs2. allocUniform sample_crc sample_device_abc_ab ''abc'' MAT4 7 =
             Inr (0, evs2, sample_device_abc_ab)) \<and>
   uniform_objs sample_device_abc (unat (0 :: uint)) =
     \<lparr>u_type = VEC4, u_count = 2, u_data = 0\<rparr> \<and>
   heap sample_device_abc 0 = Some (replicate 32 0)"
proof -
  have first: "allocUniform sample_crc sample_device ''abc'' VEC4 2 = Inr (0, [], sample_device_abc)"
    by (simp add: allocUniform_def sample_crc_def sample_device_def sample_device_abc_def
          fresh2_def isFull_def alloc_def getSize_def)
  have between: "allocUniforms sample_crc sample_device_abc [(''ab'', FLOAT, 1)] =
                   Inr sample_device_abc_ab"
    by (simp add: allocUniform_def sample_crc_def sample_device_def sample_device_abc_def
          sample_device_abc_ab_def fresh2_def isFull_def alloc_def getSize_def)
  have pre: "uniforms_hash_map sample_device (sample_crc ''abc'') = None \<and>
             \<not> isFull (uniforms sample_device) \<and> capacity_fits (uniforms sample_device)"
    by (simp add: sample_crc_def sample_device_def fresh2_def isFull_def capacity_fits_def)
  show ?thesis
    using first between pre same_name_same_slot[OF first between, of MAT4 7]
    by (simp add: sample_device_def getSize_def)
qed

section \<open>Properties of the program builder and of useProgram\<close>

lemma gl_calls_append: "gl_calls (a @ b) = gl_calls a @ gl_calls b"
  by (induction a rule: gl_calls.induct) simp_all

text \<open>
  The loop over the stages stops at the first stage that does not compile, having written
  its diagnostic, and links nothing.
\<close>

lemma compile_stages_failure:
  "\<forall>st \<in> set stages. snd st \<noteq> OTHER \<Longrightarrow> k < length stages \<Longrightarrow>
   sr_compile_status (r_shader env (i + k)) = GL_FALSE \<Longrightarrow>
   \<exists>evs. compile_stages name prefixes env i stages = Inr (False, evs) \<and>
     (\<forall>c \<in> set (gl_calls evs). \<not> is_link c) \<and>
     (\<exists>j \<le> k. sr_compile_status (r_shader env (i + j)) = GL_FALSE \<and>
        compile_diagnostic name (snd (stages ! j)) (r_shader env (i + j)) \<in> set evs)"
proof (induction stages arbitrary: i k)
  case Nil
  then show ?case by simp
next
  case (Cons st rest)
  obtain src ty where st: "st = (src, ty)" by (cases st)
  have ty: "ty \<noteq> OTHER" using Cons.prems(1) st by auto
  show ?case
  proof (cases "sr_compile_status (r_shader env i) = GL_FALSE")
    case True
    let ?shd = "sr_shd (r_shader env i)"
    let ?evs = "[GL (CreateShader (case ty of FRAGMENT \<Rightarrow> GL_FRAGMENT_SHADER
                                             | VERTEX \<Rightarrow> GL_VERTEX_SHADER | OTHER \<Rightarrow> 0)),
                 GL (ShaderSource ?shd (prefixes @ [src])),
                 GL (CompileShader ?shd),
                 GL (GetShaderiv ?shd GL_COMPILE_STATUS),
                 GL (GetShaderiv ?shd GL_INFO_LOG_LENGTH)] @
                (if sr_log_len (r_shader env i) > 0
                 then [GL (GetShaderInfoLog ?shd), compile_diagnostic name ty (r_shader env i)]
                 else [compile_diagnostic name ty (r_shader env i)]) @
                [GL (DeleteShader ?shd)]"
    have e: "compile_stages name prefixes env i (st # rest) = Inr (False, ?evs)"
      using True ty st by (cases ty) (simp_all add: Let_def compile_diagnostic_def)
    have "\<forall>c \<in> set (gl_calls ?evs). \<not> is_link c"
      by (simp add: compile_diagnostic_def)
    moreover have "compile_diagnostic name (snd ((st # rest) ! 0)) (r_shader env (i + 0)) \<in> set ?evs"
      using st by simp
    moreover have "sr_compile_status (r_shader env (i + 0)) = GL_FALSE" using True by simp
    ultimately show ?thesis using e by blast
  next
    case False
    then have k: "k \<noteq> 0" using Cons.prems(3) by (cases k) auto
    then obtain k' where k': "k = Suc k'" by (cases k) auto
    have 1: "\<forall>st \<in> set rest. snd st \<noteq> OTHER" using Cons.prems(1) by simp
    have 2: "k' < length rest" using Cons.prems(2) k' by simp
    have 3: "sr_compile_status (r_shader env (Suc i + k')) = GL_FALSE"
      using Cons.prems(3) k' by simp
    from Cons.IH[OF 1 2 3] obtain evs j where
      r: "compile_stages name prefixes env (Suc i) rest = Inr (False, evs)"
      and nl: "\<forall>c \<in> set (gl_calls evs). \<not> is_link c"
      and j: "j \<le> k'" "sr_compile_status (r_shader env (Suc i + j)) = GL_FALSE"
         "compile_diagnostic name (snd (rest ! j)) (r_shader env (Suc i + j)) \<in> set evs"
      by blast
    let ?shd = "sr_shd (r_shader env i)"
    let ?pre = "[GL (CreateShader (case ty of FRAGMENT \<Rightarrow> GL_FRAGMENT_SHADER
                                             | VERTEX \<Rightarrow> GL_VERTEX_SHADER | OTHER \<Rightarrow> 0)),
                 GL (ShaderSource ?shd (prefixes @ [src])),
                 GL (CompileShader ?shd),
                 GL (GetShaderiv ?shd GL_COMPILE_STATUS),
                 GL (AttachShader (r_prg env) ?shd), GL (DeleteShader ?shd)]"
    have e: "compile_stages name prefixes env i (st # rest) = Inr (False, ?pre @ evs)"
      using False ty r st by (cases ty) (simp_all add: Let_def)
    have "\<forall>c \<in> set (gl_calls (?pre @ evs)). \<not> is_link c"
      using nl by (simp add: gl_calls_append)
    moreover have "Suc j \<le> k" "sr_compile_status (r_shader env (i + Suc j)) = GL_FALSE"
      "compile_diagnostic name (snd ((st # rest) ! Suc j)) (r_shader env (i + Suc j)) \<in> set (?pre @ evs)"
      using j k' by simp_all
    ultimately show ?thesis using e by blast
  qed
qed

text \<open>
  C8. Let \<open>createProgram\<close> be called by the owning thread, with a free program slot, fewer
  than 15 prefixes, at most 16 stages, each a vertex or a fragment shader, and let some
  stage fail to compile. Then the call returns \<open>INVALID_PROGRAM\<close> and leaves the device state
  as it was; it never calls \<open>glLinkProgram\<close>; and for a stage that failed it has written the
  diagnostic to the log: the info log of the shader when the library reports one of
  positive length, else the message that the shader failed to compile.
\<close>

theorem compile_failure_no_link:
  assumes "thread g = caller" and "\<not> isFull (programs g)"
    and "length prefixes < 15" and "length stages \<le> 16"
    and "\<forall>st \<in> set stages. snd st \<noteq> OTHER"
    and "k < length stages" and "sr_compile_status (r_shader env k) = GL_FALSE"
  shows "\<exists>evs. createProgram crc32 env g caller stages prefixes name = Inr (INVALID_PROGRAM, evs, g) \<and>
           (\<forall>c \<in> set (gl_calls evs). \<not> is_link c) \<and>
           (\<exists>j \<le> k. sr_compile_status (r_shader env j) = GL_FALSE \<and>
              compile_diagnostic name (snd (stages ! j)) (r_shader env j) \<in> set evs)"
proof -
  from compile_stages_failure[OF assms(5,6), of env 0 name prefixes] assms(7)
  obtain evs j where
    c: "compile_stages name prefixes env 0 stages = Inr (False, evs)"
    and nl: "\<forall>c \<in> set (gl_calls evs). \<not> is_link c"
    and j: "j \<le> k" "sr_compile_status (r_shader env j) = GL_FALSE"
       "compile_diagnostic name (snd (stages ! j)) (r_shader env j) \<in> set evs"
    by auto
  have "createProgram crc32 env g caller stages prefixes name =
          Inr (INVALID_PROGRAM, GL CreateProgram # evs, g)"
    using assms(1-4) c by (simp add: createProgram_def checkThread_def)
  moreover have "\<forall>c \<in> set (gl_calls (GL CreateProgram # evs)). \<not> is_link c"
    using nl by simp
  ultimately show ?thesis using j by auto
qed

theorem compile_failure_no_link_witness:
  "createProgram sample_crc failing_replies sample_device 0
     [(''void main() {}'', VERTEX), (''void main() {'', FRAGMENT)] [''#version 330''] ''sky'' =
     Inr (INVALID_PROGRAM,
          [GL CreateProgram,
           GL (CreateShader GL_VERTEX_SHADER),
           GL (ShaderSource 4 [''#version 330'', ''void main() {}'']),
           GL (CompileShader 4), GL (GetShaderiv 4 GL_COMPILE_STATUS),
           GL (AttachShader 3 4), GL (DeleteShader 4),
           GL (CreateShader GL_FRAGMENT_SHADER),
           GL (ShaderSource 5 [''#version 330'', ''void main() {'']),
           GL (CompileShader 5), GL (GetShaderiv 5 GL_COMPILE_STATUS),
           GL (GetShaderiv 5 GL_INFO_LOG_LENGTH), GL (GetShaderInfoLog 5),
           LogError ''Renderer'' ''sky - fragment shader: syntax error'',
           GL (DeleteShader 5)],
          sample_device) \<and>
   compile_diagnostic ''sky'' FRAGMENT (r_shader failing_replies 1) =
     LogError ''Renderer'' ''sky - fragment shader: syntax error''"
proof -
  let ?stages = "[(''void main() {}'', VERTEX), (''void main() {'', FRAGMENT)]"
  have 1: "thread sample_device = 0" by (simp add: sample_device_def)
  have 2: "\<not> isFull (programs sample_device)" by (simp add: sample_device_def isFull_def)
  have 3: "length [''#version 330''] < 15" by simp
  have 4: "length ?stages \<le> 16" by simp
  have 5: "\<forall>st \<in> set ?stages. snd st \<noteq> OTHER" by simp
  have 6: "1 < length ?stages" by simp
  have 7: "sr_compile_status (r_shader failing_replies 1) = GL_FALSE"
    by (simp add: failing_replies_def GL_FALSE_def)
  have e: "createProgram sample_crc failing_replies sample_device 0 ?stages [''#version 330''] ''sky'' =
     Inr (INVALID_PROGRAM,
          [GL CreateProgram,
           GL (CreateShader GL_VERTEX_SHADER),
           GL (ShaderSource 4 [''#version 330'', ''void main() {}'']),
           GL (CompileShader 4), GL (GetShaderiv 4 GL_COMPILE_STATUS),
           GL (AttachShader 3 4), GL (DeleteShader 4),
           GL (CreateShader GL_FRAGMENT_SHADER),
           GL (ShaderSource 5 [''#version 330'', ''void main() {'']),
           GL (CompileShader 5), GL (GetShaderiv 5 GL_COMPILE_STATUS),
           GL (GetShaderiv 5 GL_INFO_LOG_LENGTH), GL (GetShaderInfoLog 5),
           LogError ''Renderer'' ''sky - fragment shader: syntax error'',
           GL (DeleteShader 5)],
          sample_device)"
    using 1 2 by (simp add: createProgram_def checkThread_def failing_replies_def GL_FALSE_def
                      shaderTypeToString_def)
  have d: "compile_diagnostic ''sky'' FRAGMENT (r_shader failing_replies 1) =
     LogError ''Renderer'' ''sky - fragment shader: syntax error''"
    by (simp add: compile_diagnostic_def failing_replies_def shaderTypeToString_def)
  from compile_failure_no_link[OF 1 2 3 4 5 6 7, of sample_crc "''sky''"] e d
  show ?thesis by simp
qed

subsection \<open>useProgram\<close>

text \<open>
  C9. Called with an invalid program handle, \<open>useProgram\<close> returns at once: it makes no call
  of the graphics library, so it binds no program and uploads no uniform, and the device
  state is as before. This holds for every device state and every calling thread.
\<close>

theorem useProgram_invalid_noop:
  "\<not> isValid handle \<Longrightarrow> useProgram g caller handle = Inr ([], g)"
  by (simp add: useProgram_def)

theorem useProgram_invalid_noop_witness:
  "\<not> isValid INVALID_PROGRAM \<and> useProgram sample_device 0 INVALID_PROGRAM = Inr ([], sample_device)"
proof -
  have "\<not> isValid INVALID_PROGRAM" by (simp add: isValid_def INVALID_PROGRAM_def)
  then show ?thesis using useProgram_invalid_noop[of INVALID_PROGRAM sample_device 0] by simp
qed

lemma upload_uniforms_no_assert: "upload_uniforms g us \<noteq> Inl AssertionFailed"
  by (induction us) (auto simp: Let_def split: option.splits sum.splits if_splits)

text \<open>
  C4 does not hold of the code. \<open>viewport\<close>, like most entry points, starts with
  \<open>checkThread\<close> and fails its assertion when another thread than the owner calls it.
  \<open>useProgram\<close> has no such call: it never fails an assertion, and called by another thread
  with a valid handle it goes on to \<open>glUseProgram\<close>.
\<close>

theorem useProgram_unchecked:
  assumes "thread g \<noteq> caller" and "isValid handle"
  shows "viewport g caller x y w h = Inl AssertionFailed \<and>
         useProgram g caller handle \<noteq> Inl AssertionFailed \<and>
         (\<forall>evs g'. useProgram g caller handle = Inr (evs, g') \<longrightarrow>
            (\<exists>rest. evs = GL (UseProgram (p_handle (program_objs g (unat handle)))) # rest))"
  using assms upload_uniforms_no_assert[of g "p_uniforms (program_objs g (unat handle))"]
  by (auto simp: viewport_def checkThread_def useProgram_def split: sum.splits if_splits)

theorem useProgram_unchecked_witness:
  "thread sample_device \<noteq> 1 \<and> isValid 0 \<and>
   viewport sample_device 1 0 0 640 480 = Inl AssertionFailed \<and>
   useProgram sample_device 1 0 = Inr ([GL (UseProgram 7)], sample_device)"
proof -
  have t: "thread sample_device \<noteq> 1" by (simp add: sample_device_def)
  have v: "isValid 0" by (simp add: isValid_def)
  have u: "useProgram sample_device 1 0 = Inr ([GL (UseProgram 7)], sample_device)"
    using v by (simp add: useProgram_def sample_device_def)
  show ?thesis using t v u useProgram_unchecked[OF t v, of 0 0 640 480] by simp
qed

end
